theory Spec2Isabelle
  imports Main "HOL-Library.Sublist"
begin

section \<open>Bulk policy enforcement scripts: a shallow embedding\<close>

text \<open>
  The repository holds five scripts. Two set the retention of CloudWatch log groups
  (\<^verbatim>\<open>cw_log_grp_ret_target_1m_2m_3m.py\<close>, the conditional one, and
  \<^verbatim>\<open>cloudwatch_log_grp_rete_all_1m_non_prod.py\<close>, the unconditional one); three put a
  lifecycle configuration on S3 buckets named in a CSV file (\<^verbatim>\<open>s3_expire.py\<close>,
  \<^verbatim>\<open>s3_glacier_expire.py\<close>, \<^verbatim>\<open>s3_policy_set_prompts.py\<close>).

  Every script talks to the cloud provider and to a logger. The embedding makes both
  explicit: a function returns the list of events it caused, in the order they happened,
  next to its result, and a raised exception is the \<open>Inl\<close> branch of the result. What
  the provider answers is not the scripts' to decide, so it is a parameter: an environment
  of functions, each of which sees the events that happened before the call (the history)
  and the arguments of the call.
\<close>

subsection \<open>Events, exceptions, loops\<close>

type_synonym profile = string
type_synonym region = string

text \<open>
  The text read from the CSV file is Python \<^verbatim>\<open>str\<close>, of any characters: a list of
  Unicode code points. \<open>str_of\<close> is the \<^verbatim>\<open>str\<close> of a literal of the scripts. The names
  the scripts only pass on or compare with literals (profiles, regions, log groups,
  storage classes, paths, answers to the prompts) are \<open>string\<close>.
\<close>

type_synonym str = "nat list"

definition str_of :: "string \<Rightarrow> str" where
  "str_of s = map of_char s"

datatype log_level = INFO | ERROR

text \<open>An event is a record written to the logger or a call made to a collaborator.\<close>

datatype ('m, 'c) event = Log log_level 'm | Call 'c

text \<open>
  The exceptions the scripts can meet. \<open>BotoCoreError\<close> stands for every exception
  of the SDK that is not a \<open>ClientError\<close> (an unknown profile, no credentials, no
  connection); \<open>BucketNotAccessible b\<close> is the plain
  \<^verbatim>\<open>Exception(f"Bucket {b} is not accessible or doesn't exist.")\<close> of the S3 scripts.
\<close>

datatype py_error =
    IndexError
  | FileNotFoundError
  | OSError
  | ClientError
  | BotoCoreError
  | BucketNotAccessible str
  | UnboundLocalError
  | EOFError
  | ValueError

text \<open>What a call to the provider does: it returns, or raises one of the two kinds.\<close>

datatype api_result = Returned | Raised_ClientError | Raised_BotoCoreError

text \<open>
  Python's \<^verbatim>\<open>for x in xs: body\<close> where the body may raise: the loop stops at the first
  exception, and each iteration sees the history extended by the events of the ones
  before. A \<^verbatim>\<open>continue\<close> is a body that returns early.
\<close>

fun for_each ::
  "('e list \<Rightarrow> 'a \<Rightarrow> 'e list \<times> (py_error + unit)) \<Rightarrow> 'e list \<Rightarrow> 'a list
    \<Rightarrow> 'e list \<times> (py_error + unit)" where
  "for_each body h [] = ([], Inr ())"
| "for_each body h (x # xs) =
     (case body h x of
        (es, Inl e) \<Rightarrow> (es, Inl e)
      | (es, Inr _) \<Rightarrow> (case for_each body (h @ es) xs of (es', r) \<Rightarrow> (es @ es', r)))"

text \<open>The calls among the events, in order.\<close>

fun call_of :: "('m, 'c) event \<Rightarrow> 'c option" where
  "call_of (Call c) = Some c"
| "call_of (Log l m) = None"

definition calls_of :: "('m, 'c) event list \<Rightarrow> 'c list" where
  "calls_of es = List.map_filter call_of es"

subsection \<open>CloudWatch: the log groups and the provider\<close>

text \<open>
  A log group as \<^verbatim>\<open>describe_log_groups\<close> reports it: the name, and the retention when
  one is set (the key \<^verbatim>\<open>retentionInDays\<close> is absent for a group that never expires).
\<close>

record log_group =
  logGroupName :: string
  retentionInDays :: "int option"

text \<open>
  What \<^verbatim>\<open>paginator.paginate()\<close> yields next: a page of log groups, or an exception.
  The listing of one (profile, region) is a finite list of these; nothing is asked for
  after an exception.
\<close>

datatype page_result = Page "log_group list" | Page_raises

datatype cw_call =
    Setup_logging profile bool
  | Logs_client profile region bool
  | Describe_log_groups_page profile region "log_group list"
  | Describe_log_groups_raises profile region
  | Put_retention_policy profile region string int bool
  | Print_complete

datatype cw_msg =
    Started_processing profile
  | Processing_region region
  | Setting_retention profile string
  | Skipping profile string "int option"
  | Update_complete profile
  | Error_in_region region profile
  | Error_for_profile profile
  | Traceback

type_synonym cw_event = "(cw_msg, cw_call) event"

text \<open>
  The provider and the log file system. A \<open>bool\<close> answer says whether the call
  returned (\<open>True\<close>) or raised: both scripts catch \<^verbatim>\<open>Exception\<close>, so the kind of
  exception makes no difference to them.
\<close>

record cw_env =
  setup_logging_returns :: "cw_event list \<Rightarrow> profile \<Rightarrow> bool"
  logs_client_returns :: "cw_event list \<Rightarrow> profile \<Rightarrow> region \<Rightarrow> bool"
  describe_log_groups :: "cw_event list \<Rightarrow> profile \<Rightarrow> region \<Rightarrow> page_result list"
  put_retention_policy_returns :: "cw_event list \<Rightarrow> profile \<Rightarrow> region \<Rightarrow> string \<Rightarrow> int \<Rightarrow> bool"

text \<open>
  The variables at the head of each script. The scripts ship them with the values of
  \<open>shipped_cw_vars\<close>; the profile name \<^verbatim>\<open>'accountid'\<close> is a placeholder
  (\<^verbatim>\<open># Replace with your AWS CLI profile names\<close>). The unconditional script has no
  \<^verbatim>\<open>TARGET_RETENTION_DAYS\<close> and never reads the field.
\<close>

record cw_vars =
  regions :: "region list"
  RETENTION_DAYS :: int
  TARGET_RETENTION_DAYS :: int
  aws_profiles :: "profile list"

definition shipped_cw_vars :: cw_vars where
  "shipped_cw_vars =
     \<lparr> regions = [''us-east-1'', ''us-west-1'', ''us-west-2'', ''us-east-2''],
       RETENTION_DAYS = 30,
       TARGET_RETENTION_DAYS = 14,
       aws_profiles = [''accountid''] \<rparr>"

subsection \<open>CloudWatch: the conditional script\<close>

text \<open>
  The body of the inner loop of \<^verbatim>\<open>set_retention_for_log_groups\<close> in
  \<^verbatim>\<open>cw_log_grp_ret_target_1m_2m_3m.py\<close>:
  \<^verbatim>\<open>
  if 'retentionInDays' in log_group and log_group['retentionInDays'] == TARGET_RETENTION_DAYS:
      logger.info(... Setting retention ...)
      logs_client.put_retention_policy(logGroupName=log_group_name, retentionInDays=RETENTION_DAYS)
  else:
      logger.info(... Skipping.)
  \<close>
\<close>

definition target_log_group ::
  "cw_vars \<Rightarrow> cw_env \<Rightarrow> profile \<Rightarrow> region \<Rightarrow> cw_event list \<Rightarrow> log_group
    \<Rightarrow> cw_event list \<times> (py_error + unit)" where
  "target_log_group vars env profile region h log_group =
     (let log_group_name = logGroupName log_group in
      if (case retentionInDays log_group of
            None \<Rightarrow> False
          | Some d \<Rightarrow> d = TARGET_RETENTION_DAYS vars)
      then
        (let es = [Log INFO (Setting_retention profile log_group_name)];
             ok = put_retention_policy_returns env (h @ es) profile region log_group_name
                    (RETENTION_DAYS vars);
             es' = es @ [Call (Put_retention_policy profile region log_group_name
                                (RETENTION_DAYS vars) ok)]
         in if ok then (es', Inr ()) else (es', Inl ClientError))
      else
        ([Log INFO (Skipping profile log_group_name (retentionInDays log_group))], Inr ()))"

text \<open>
  The body of the inner loop of the unconditional script
  (\<^verbatim>\<open>cloudwatch_log_grp_rete_all_1m_non_prod.py\<close>): log, then put, whatever the group's
  retention is.
\<close>

definition all_log_group ::
  "cw_vars \<Rightarrow> cw_env \<Rightarrow> profile \<Rightarrow> region \<Rightarrow> cw_event list \<Rightarrow> log_group
    \<Rightarrow> cw_event list \<times> (py_error + unit)" where
  "all_log_group vars env profile region h log_group =
     (let log_group_name = logGroupName log_group;
          es = [Log INFO (Setting_retention profile log_group_name)];
          ok = put_retention_policy_returns env (h @ es) profile region log_group_name
                 (RETENTION_DAYS vars);
          es' = es @ [Call (Put_retention_policy profile region log_group_name
                             (RETENTION_DAYS vars) ok)]
      in if ok then (es', Inr ()) else (es', Inl ClientError))"

text \<open>
  One turn of \<^verbatim>\<open>for page in paginator.paginate()\<close>: the next page is fetched (or the
  fetch raises), then its log groups are handled one by one.
\<close>

definition on_page ::
  "(cw_event list \<Rightarrow> log_group \<Rightarrow> cw_event list \<times> (py_error + unit)) \<Rightarrow> profile \<Rightarrow> region
    \<Rightarrow> cw_event list \<Rightarrow> page_result \<Rightarrow> cw_event list \<times> (py_error + unit)" where
  "on_page on_group profile region h pr =
     (case pr of
        Page_raises \<Rightarrow> ([Call (Describe_log_groups_raises profile region)], Inl ClientError)
      | Page groups \<Rightarrow>
          (let es = [Call (Describe_log_groups_page profile region groups)] in
           case for_each on_group (h @ es) groups of (es', r) \<Rightarrow> (es @ es', r)))"

text \<open>
  \<^verbatim>\<open>set_retention_for_log_groups(region, profile, logger)\<close>, the same in both scripts but
  for the body of the inner loop, which is the parameter \<open>on_group\<close>. Whatever is
  raised inside is logged (the message and the traceback) and raised again.
\<close>

definition set_retention_for_log_groups ::
  "(profile \<Rightarrow> region \<Rightarrow> cw_event list \<Rightarrow> log_group \<Rightarrow> cw_event list \<times> (py_error + unit))
    \<Rightarrow> cw_env \<Rightarrow> cw_event list \<Rightarrow> region \<Rightarrow> profile \<Rightarrow> cw_event list \<times> (py_error + unit)" where
  "set_retention_for_log_groups on_group env h region profile =
     (let ok = logs_client_returns env h profile region;
          es = [Call (Logs_client profile region ok)];
          (es', r) =
            (if \<not> ok then ([], Inl BotoCoreError)
             else for_each (on_page (on_group profile region) profile region) (h @ es)
                    (describe_log_groups env (h @ es) profile region))
      in case r of
           Inr _ \<Rightarrow> (es @ es', Inr ())
         | Inl e \<Rightarrow>
             (es @ es' @ [Log ERROR (Error_in_region region profile), Log ERROR Traceback],
              Inl e))"

text \<open>
  The body of \<^verbatim>\<open>for region in regions\<close> in \<^verbatim>\<open>process_log_groups\<close>.
\<close>

definition on_region ::
  "(profile \<Rightarrow> region \<Rightarrow> cw_event list \<Rightarrow> log_group \<Rightarrow> cw_event list \<times> (py_error + unit))
    \<Rightarrow> cw_env \<Rightarrow> profile \<Rightarrow> cw_event list \<Rightarrow> region \<Rightarrow> cw_event list \<times> (py_error + unit)" where
  "on_region on_group env profile h region =
     (let es = [Log INFO (Processing_region region)] in
      case set_retention_for_log_groups on_group env (h @ es) region profile of
        (es', r) \<Rightarrow> (es @ es', r))"

text \<open>
  One turn of \<^verbatim>\<open>for profile in aws_profiles\<close> in \<^verbatim>\<open>process_log_groups()\<close>, with a
  logger at hand: a \<^verbatim>\<open>try\<close> around the set-up of the logger and the loop over the
  regions, and a handler that logs the exception (the message and the traceback) and
  lets the loop over the profiles go on.
\<close>

definition profile_turn ::
  "(profile \<Rightarrow> region \<Rightarrow> cw_event list \<Rightarrow> log_group \<Rightarrow> cw_event list \<times> (py_error + unit))
    \<Rightarrow> cw_vars \<Rightarrow> cw_env \<Rightarrow> cw_event list \<Rightarrow> profile \<Rightarrow> cw_event list" where
  "profile_turn on_group vars env h profile =
     (let ok = setup_logging_returns env h profile;
          es = [Call (Setup_logging profile ok)]
      in if \<not> ok then es @ [Log ERROR (Error_for_profile profile), Log ERROR Traceback]
         else
           (let es' = es @ [Log INFO (Started_processing profile)] in
            case for_each (on_region on_group env profile) (h @ es') (regions vars) of
              (es'', Inr _) \<Rightarrow> es' @ es'' @ [Log INFO (Update_complete profile)]
            | (es'', Inl e) \<Rightarrow>
                es' @ es'' @ [Log ERROR (Error_for_profile profile), Log ERROR Traceback]))"

text \<open>
  The loop over the profiles. The handler uses the local variable \<^verbatim>\<open>logger\<close>, which
  is bound only once \<^verbatim>\<open>setup_logging\<close> has returned in this or an earlier turn
  (\<open>bound\<close>): when \<^verbatim>\<open>setup_logging\<close> raises before that, the handler itself raises
  \<^verbatim>\<open>UnboundLocalError\<close>, which nothing catches.
\<close>

fun for_profiles ::
  "(profile \<Rightarrow> region \<Rightarrow> cw_event list \<Rightarrow> log_group \<Rightarrow> cw_event list \<times> (py_error + unit))
    \<Rightarrow> cw_vars \<Rightarrow> cw_env \<Rightarrow> bool \<Rightarrow> cw_event list \<Rightarrow> profile list
    \<Rightarrow> cw_event list \<times> (py_error + unit)" where
  "for_profiles on_group vars env bound h [] = ([], Inr ())"
| "for_profiles on_group vars env bound h (profile # profiles) =
     (if \<not> setup_logging_returns env h profile \<and> \<not> bound
      then ([Call (Setup_logging profile False)], Inl UnboundLocalError)
      else
        (let es = profile_turn on_group vars env h profile in
         case for_profiles on_group vars env True (h @ es) profiles of
           (es', r) \<Rightarrow> (es @ es', r)))"

definition process_log_groups ::
  "(profile \<Rightarrow> region \<Rightarrow> cw_event list \<Rightarrow> log_group \<Rightarrow> cw_event list \<times> (py_error + unit))
    \<Rightarrow> cw_vars \<Rightarrow> cw_env \<Rightarrow> cw_event list \<Rightarrow> cw_event list \<times> (py_error + unit)" where
  "process_log_groups on_group vars env h = for_profiles on_group vars env False h (aws_profiles vars)"

text \<open>
  The script as a whole: \<^verbatim>\<open>process_log_groups()\<close>, then the closing \<^verbatim>\<open>print\<close>. The
  second component is the exit status of the process: 0 when the module runs to its end,
  1 when an exception reaches the top.
\<close>

definition cw_script ::
  "(profile \<Rightarrow> region \<Rightarrow> cw_event list \<Rightarrow> log_group \<Rightarrow> cw_event list \<times> (py_error + unit))
    \<Rightarrow> cw_vars \<Rightarrow> cw_env \<Rightarrow> cw_event list \<times> int" where
  "cw_script on_group vars env =
     (case process_log_groups on_group vars env [] of
        (es, Inr _) \<Rightarrow> (es @ [Call Print_complete], 0)
      | (es, Inl e) \<Rightarrow> (es, 1))"

definition target_script :: "cw_vars \<Rightarrow> cw_env \<Rightarrow> cw_event list \<times> int" where
  "target_script vars env = cw_script (target_log_group vars env) vars env"

definition all_script :: "cw_vars \<Rightarrow> cw_env \<Rightarrow> cw_event list \<times> int" where
  "all_script vars env = cw_script (all_log_group vars env) vars env"

subsection \<open>S3: the lifecycle configuration\<close>

text \<open>
  The dictionary passed as \<^verbatim>\<open>LifecycleConfiguration\<close>: one rule under \<^verbatim>\<open>'Rules'\<close>.
  A key that a script leaves out is \<open>None\<close>. \<open>Expiration_Days\<close> is
  \<^verbatim>\<open>rule['Expiration']['Days']\<close> and \<open>NoncurrentVersionExpiration_NoncurrentDays\<close> is
  \<^verbatim>\<open>rule['NoncurrentVersionExpiration']['NoncurrentDays']\<close>; the empty \<^verbatim>\<open>'Filter'\<close> is
  the empty list of its entries.
\<close>

record transition =
  Days :: int
  StorageClass :: string

record noncurrent_version_transition =
  NoncurrentDays :: int
  Noncurrent_StorageClass :: string

record lifecycle_rule =
  ID :: str
  Filter :: "(string \<times> string) list"
  Status :: string
  Transitions :: "transition list option"
  Expiration_Days :: int
  NoncurrentVersionTransitions :: "noncurrent_version_transition list option"
  NoncurrentVersionExpiration_NoncurrentDays :: int

record lifecycle_configuration =
  Rules :: "lifecycle_rule list"

subsection \<open>S3: the provider, the file, the events\<close>

datatype s3_call =
    S3_client profile api_result
  | Head_bucket profile str api_result
  | Put_bucket_lifecycle_configuration profile str lifecycle_configuration api_result

datatype s3_msg =
    Usage
  | Starting
  | Processing_bucket str
  | Using_profile profile
  | Policy_created profile str
  | Error_creating_policy profile str
  | Bucket_not_accessible profile str
  | CSV_not_found string
  | Unexpected_error py_error
  | Process_completed
  | Process_terminated py_error

type_synonym s3_event = "(s3_msg, s3_call) event"

text \<open>
  What \<^verbatim>\<open>open(csv_file_path, 'r')\<close> and \<^verbatim>\<open>csv.reader(file)\<close> give: no such file, a
  file that cannot be opened, or the rows of the file. \<^verbatim>\<open>csv.reader\<close> yields one list
  of fields per line and the empty list for an empty line (\<^verbatim>\<open>csv.DictReader\<close> skips
  those rows because, as its source says, the basic reader returns them); a line of
  blanks only is one field of blanks.
\<close>

datatype file_result = No_such_file | Cannot_open | Rows "str list list"

record s3_env =
  open_csv :: "string \<Rightarrow> file_result"
  s3_client :: "s3_event list \<Rightarrow> profile \<Rightarrow> api_result"
  head_bucket :: "s3_event list \<Rightarrow> profile \<Rightarrow> str \<Rightarrow> api_result"
  put_bucket_lifecycle_configuration ::
    "s3_event list \<Rightarrow> profile \<Rightarrow> str \<Rightarrow> lifecycle_configuration \<Rightarrow> api_result"

text \<open>
  \<^verbatim>\<open>str.strip()\<close> removes from both ends the characters Python 3 counts as white
  space: the code points of \<^verbatim>\<open>_PyUnicode_IsWhitespace\<close> (the controls U+0009 to U+000D
  and U+001C to U+001F, the space, U+0085, U+00A0, U+1680, U+2000 to U+200A, U+2028,
  U+2029, U+202F, U+205F and U+3000).
\<close>

definition isspace :: "nat \<Rightarrow> bool" where
  "isspace c \<longleftrightarrow>
     c \<in> set [0x0009, 0x000A, 0x000B, 0x000C, 0x000D, 0x001C, 0x001D, 0x001E, 0x001F,
              0x0020, 0x0085, 0x00A0, 0x1680,
              0x2000, 0x2001, 0x2002, 0x2003, 0x2004, 0x2005, 0x2006, 0x2007, 0x2008,
              0x2009, 0x200A, 0x2028, 0x2029, 0x202F, 0x205F, 0x3000]"

definition strip :: "str \<Rightarrow> str" where
  "strip s = rev (dropWhile isspace (rev (dropWhile isspace s)))"

subsection \<open>S3: building and putting the policy\<close>

text \<open>
  The three \<^verbatim>\<open>create_lifecycle_policy\<close> build a dictionary and then do the same:
  \<^verbatim>\<open>
  try:
      s3_client.put_bucket_lifecycle_configuration(Bucket=bucket_name, LifecycleConfiguration=lifecycle_config)
      logging.info(... created successfully ...)
  except ClientError as e:
      logging.error(... Error creating lifecycle policy ...)
      raise
  \<close>
  None of them looks at the numbers it puts into the dictionary.
\<close>

definition put_lifecycle_config ::
  "s3_env \<Rightarrow> s3_event list \<Rightarrow> str \<Rightarrow> profile \<Rightarrow> lifecycle_configuration
    \<Rightarrow> s3_event list \<times> (py_error + unit)" where
  "put_lifecycle_config env h bucket_name profile lifecycle_config =
     (let r = put_bucket_lifecycle_configuration env h profile bucket_name lifecycle_config;
          es = [Call (Put_bucket_lifecycle_configuration profile bucket_name lifecycle_config r)]
      in case r of
           Returned \<Rightarrow> (es @ [Log INFO (Policy_created profile bucket_name)], Inr ())
         | Raised_ClientError \<Rightarrow>
             (es @ [Log ERROR (Error_creating_policy profile bucket_name)], Inl ClientError)
         | Raised_BotoCoreError \<Rightarrow> (es, Inl BotoCoreError))"

text \<open>\<^verbatim>\<open>s3_expire.py\<close>: \<^verbatim>\<open>LIFECYCLE_DAYS = 60\<close>, no transition.\<close>

definition LIFECYCLE_DAYS :: int where
  "LIFECYCLE_DAYS = 60"

definition expire_lifecycle_config :: "str \<Rightarrow> lifecycle_configuration" where
  "expire_lifecycle_config bucket_name =
     \<lparr> Rules = [
         \<lparr> ID = bucket_name @ str_of ''_lifecycle_policy_expire'',
           Filter = [],
           Status = ''Enabled'',
           Transitions = None,
           Expiration_Days = LIFECYCLE_DAYS,
           NoncurrentVersionTransitions = None,
           NoncurrentVersionExpiration_NoncurrentDays = LIFECYCLE_DAYS \<rparr>] \<rparr>"

definition expire_create_lifecycle_policy ::
  "s3_env \<Rightarrow> s3_event list \<Rightarrow> str \<Rightarrow> profile \<Rightarrow> s3_event list \<times> (py_error + unit)" where
  "expire_create_lifecycle_policy env h bucket_name profile =
     put_lifecycle_config env h bucket_name profile (expire_lifecycle_config bucket_name)"

text \<open>
  \<^verbatim>\<open>s3_glacier_expire.py\<close>: the day counts and the storage class are the variables at
  the head of the script, shipped with the values of \<open>shipped_glacier_vars\<close>.
\<close>

record glacier_vars =
  LIFECYCLE_DAYS_TO_GLACIER :: int
  LIFECYCLE_DAYS_TO_EXPIRATION :: int
  LIFECYCLE_NONCURRENT_DAYS_TO_GLACIER :: int
  LIFECYCLE_NONCURRENT_DAYS_TO_EXPIRATION :: int
  GLACIER_STORAGE_CLASS :: string

definition shipped_glacier_vars :: glacier_vars where
  "shipped_glacier_vars =
     \<lparr> LIFECYCLE_DAYS_TO_GLACIER = 180,
       LIFECYCLE_DAYS_TO_EXPIRATION = 365,
       LIFECYCLE_NONCURRENT_DAYS_TO_GLACIER = 180,
       LIFECYCLE_NONCURRENT_DAYS_TO_EXPIRATION = 365,
       GLACIER_STORAGE_CLASS = ''GLACIER_IR'' \<rparr>"

definition glacier_lifecycle_config :: "glacier_vars \<Rightarrow> str \<Rightarrow> lifecycle_configuration" where
  "glacier_lifecycle_config vars bucket_name =
     \<lparr> Rules = [
         \<lparr> ID = bucket_name @ str_of ''_lifecycle_policy'',
           Filter = [],
           Status = ''Enabled'',
           Transitions = Some [
             \<lparr> Days = LIFECYCLE_DAYS_TO_GLACIER vars,
               StorageClass = GLACIER_STORAGE_CLASS vars \<rparr>],
           Expiration_Days = LIFECYCLE_DAYS_TO_EXPIRATION vars,
           NoncurrentVersionTransitions = Some [
             \<lparr> NoncurrentDays = LIFECYCLE_NONCURRENT_DAYS_TO_GLACIER vars,
               Noncurrent_StorageClass = GLACIER_STORAGE_CLASS vars \<rparr>],
           NoncurrentVersionExpiration_NoncurrentDays =
             LIFECYCLE_NONCURRENT_DAYS_TO_EXPIRATION vars \<rparr>] \<rparr>"

definition glacier_create_lifecycle_policy ::
  "glacier_vars \<Rightarrow> s3_env \<Rightarrow> s3_event list \<Rightarrow> str \<Rightarrow> profile
    \<Rightarrow> s3_event list \<times> (py_error + unit)" where
  "glacier_create_lifecycle_policy vars env h bucket_name profile =
     put_lifecycle_config env h bucket_name profile (glacier_lifecycle_config vars bucket_name)"

text \<open>
  \<^verbatim>\<open>s3_policy_set_prompts.py\<close>: the transition day count and the storage class are
  arguments; both expirations are the transition day count plus 365.
\<close>

definition prompts_lifecycle_config :: "str \<Rightarrow> int \<Rightarrow> string \<Rightarrow> lifecycle_configuration" where
  "prompts_lifecycle_config bucket_name transition_days storage_class =
     \<lparr> Rules = [
         \<lparr> ID = bucket_name @ str_of ''_lifecycle_policy'',
           Filter = [],
           Status = ''Enabled'',
           Transitions = Some [
             \<lparr> Days = transition_days, StorageClass = storage_class \<rparr>],
           Expiration_Days = transition_days + 365,
           NoncurrentVersionTransitions = Some [
             \<lparr> NoncurrentDays = transition_days, Noncurrent_StorageClass = storage_class \<rparr>],
           NoncurrentVersionExpiration_NoncurrentDays = transition_days + 365 \<rparr>] \<rparr>"

definition prompts_create_lifecycle_policy ::
  "int \<Rightarrow> string \<Rightarrow> s3_env \<Rightarrow> s3_event list \<Rightarrow> str \<Rightarrow> profile
    \<Rightarrow> s3_event list \<times> (py_error + unit)" where
  "prompts_create_lifecycle_policy transition_days storage_class env h bucket_name profile =
     put_lifecycle_config env h bucket_name profile
       (prompts_lifecycle_config bucket_name transition_days storage_class)"

subsection \<open>S3: the loop over the file\<close>

text \<open>
  The body of \<^verbatim>\<open>for profile in AWS_PROFILES\<close>, the same in the three scripts but for
  the \<^verbatim>\<open>create_lifecycle_policy\<close> it calls (the parameter \<open>create\<close>). The client is
  made outside the inner \<^verbatim>\<open>try\<close>, so what it raises goes up as it is. Inside, a
  \<^verbatim>\<open>ClientError\<close> of \<^verbatim>\<open>head_bucket\<close> or of \<^verbatim>\<open>create_lifecycle_policy\<close> is logged
  and replaced by the plain exception; anything else goes up as it is.
\<close>

definition on_profile ::
  "(s3_env \<Rightarrow> s3_event list \<Rightarrow> str \<Rightarrow> profile \<Rightarrow> s3_event list \<times> (py_error + unit))
    \<Rightarrow> s3_env \<Rightarrow> str \<Rightarrow> s3_event list \<Rightarrow> profile \<Rightarrow> s3_event list \<times> (py_error + unit)" where
  "on_profile create env bucket_name h profile =
     (let r0 = s3_client env h profile;
          es0 = [Call (S3_client profile r0)]
      in case r0 of
           Raised_ClientError \<Rightarrow> (es0, Inl ClientError)
         | Raised_BotoCoreError \<Rightarrow> (es0, Inl BotoCoreError)
         | Returned \<Rightarrow>
             (let es1 = es0 @ [Log INFO (Using_profile profile)];
                  r1 = head_bucket env (h @ es1) profile bucket_name;
                  es2 = es1 @ [Call (Head_bucket profile bucket_name r1)]
              in case r1 of
                   Raised_ClientError \<Rightarrow>
                     (es2 @ [Log ERROR (Bucket_not_accessible profile bucket_name)],
                      Inl (BucketNotAccessible bucket_name))
                 | Raised_BotoCoreError \<Rightarrow> (es2, Inl BotoCoreError)
                 | Returned \<Rightarrow>
                     (case create env (h @ es2) bucket_name profile of
                        (es3, r) \<Rightarrow>
                          if r = Inl ClientError
                          then (es2 @ es3 @ [Log ERROR (Bucket_not_accessible profile bucket_name)],
                                Inl (BucketNotAccessible bucket_name))
                          else (es2 @ es3, r))))"

text \<open>
  The body of \<^verbatim>\<open>for row in reader\<close>:
  \<^verbatim>\<open>
  bucket_name = row[0].strip()
  if not bucket_name:
      continue
  logging.info(f"Processing bucket: {bucket_name}")
  for profile in AWS_PROFILES: ...
  \<close>
  \<^verbatim>\<open>row[0]\<close> raises \<^verbatim>\<open>IndexError\<close> on a row with no field.
\<close>

definition on_row ::
  "(s3_env \<Rightarrow> s3_event list \<Rightarrow> str \<Rightarrow> profile \<Rightarrow> s3_event list \<times> (py_error + unit))
    \<Rightarrow> s3_env \<Rightarrow> profile list \<Rightarrow> s3_event list \<Rightarrow> str list
    \<Rightarrow> s3_event list \<times> (py_error + unit)" where
  "on_row create env AWS_PROFILES h row =
     (case row of
        [] \<Rightarrow> ([], Inl IndexError)
      | field # _ \<Rightarrow>
          (let bucket_name = strip field in
           if bucket_name = [] then ([], Inr ())
           else
             (let es = [Log INFO (Processing_bucket bucket_name)] in
              case for_each (on_profile create env bucket_name) (h @ es) AWS_PROFILES of
                (es', r) \<Rightarrow> (es @ es', r))))"

text \<open>
  \<^verbatim>\<open>process_buckets(csv_file_path)\<close>: a missing file is logged and raised again; every
  other exception, of the file or of the loop, is logged as unexpected and raised again.
  \<open>AWS_PROFILES\<close> is the list at the head of the script, shipped as one placeholder
  name: \<^verbatim>\<open>'accountid'\<close> in \<^verbatim>\<open>s3_expire.py\<close>, \<^verbatim>\<open>'account_id'\<close> in
  \<^verbatim>\<open>s3_glacier_expire.py\<close> and in \<^verbatim>\<open>s3_policy_set_prompts.py\<close>.
\<close>

definition process_buckets ::
  "(s3_env \<Rightarrow> s3_event list \<Rightarrow> str \<Rightarrow> profile \<Rightarrow> s3_event list \<times> (py_error + unit))
    \<Rightarrow> s3_env \<Rightarrow> profile list \<Rightarrow> s3_event list \<Rightarrow> string
    \<Rightarrow> s3_event list \<times> (py_error + unit)" where
  "process_buckets create env AWS_PROFILES h csv_file_path =
     (case open_csv env csv_file_path of
        No_such_file \<Rightarrow> ([Log ERROR (CSV_not_found csv_file_path)], Inl FileNotFoundError)
      | Cannot_open \<Rightarrow> ([Log ERROR (Unexpected_error OSError)], Inl OSError)
      | Rows rows \<Rightarrow>
          (case for_each (on_row create env AWS_PROFILES) h rows of
             (es, Inr _) \<Rightarrow> (es, Inr ())
           | (es, Inl e) \<Rightarrow> (es @ [Log ERROR (Unexpected_error e)], Inl e)))"


definition glacier_AWS_PROFILES :: "profile list" where
  "glacier_AWS_PROFILES = [''account_id'']"

definition prompts_AWS_PROFILES :: "profile list" where
  "prompts_AWS_PROFILES = [''account_id'']"

text \<open>
  \<^verbatim>\<open>main()\<close> of \<^verbatim>\<open>s3_expire.py\<close> and \<^verbatim>\<open>s3_glacier_expire.py\<close>; \<open>argv\<close> is
  \<^verbatim>\<open>sys.argv\<close>. The second component is the exit status: \<^verbatim>\<open>sys.exit(1)\<close> after a
  usage error or an exception of \<^verbatim>\<open>process_buckets\<close>, 0 when \<^verbatim>\<open>main\<close> returns.
\<close>

definition main ::
  "(s3_env \<Rightarrow> s3_event list \<Rightarrow> str \<Rightarrow> profile \<Rightarrow> s3_event list \<times> (py_error + unit))
    \<Rightarrow> s3_env \<Rightarrow> profile list \<Rightarrow> string list \<Rightarrow> s3_event list \<times> int" where
  "main create env AWS_PROFILES argv =
     (if length argv < 2 then ([Log ERROR Usage], 1)
      else
        (let csv_file_path = argv ! 1;
             es = [Log INFO Starting]
         in case process_buckets create env AWS_PROFILES es csv_file_path of
              (es', Inr _) \<Rightarrow> (es @ es' @ [Log INFO Process_completed], 0)
            | (es', Inl e) \<Rightarrow> (es @ es' @ [Log ERROR (Process_terminated e)], 1)))"

subsection \<open>S3: the prompts\<close>

text \<open>
  \<^verbatim>\<open>input(...)\<close> reads the next line of the standard input and raises \<^verbatim>\<open>EOFError\<close> when
  there is none. Each of the two questions of \<^verbatim>\<open>get_lifecycle_input\<close> is asked until
  the answer is one of the strings allowed:
  \<^verbatim>\<open>
  transition_days = input(...)
  while transition_days not in ['30', '60', '90', '180', '360']:
      transition_days = input(...)
  \<close>
  The result holds the lines not read yet; what the function prints between the
  questions is left out.
\<close>

fun input_until :: "string list \<Rightarrow> string list \<Rightarrow> (py_error + string) \<times> string list" where
  "input_until allowed [] = (Inl EOFError, [])"
| "input_until allowed (line # stdin) =
     (if line \<in> set allowed then (Inr line, stdin) else input_until allowed stdin)"

text \<open>
  \<^verbatim>\<open>int(s)\<close> on a string of decimal digits; \<^verbatim>\<open>ValueError\<close> otherwise. (Python's
  \<^verbatim>\<open>int\<close> also reads a sign, blanks around the number and underscores between digits;
  \<^verbatim>\<open>get_lifecycle_input\<close> calls it on one of five strings of digits only.)
\<close>

definition is_digit :: "char \<Rightarrow> bool" where
  "is_digit c \<longleftrightarrow> c \<in> set ''0123456789''"

definition py_int :: "string \<Rightarrow> py_error + int" where
  "py_int s =
     (if s \<noteq> [] \<and> list_all is_digit s
      then Inr (foldl (\<lambda>a c. 10 * a + (int (of_char c) - 48)) 0 s)
      else Inl ValueError)"

definition get_lifecycle_input :: "string list \<Rightarrow> (py_error + int \<times> string) \<times> string list" where
  "get_lifecycle_input stdin =
     (case input_until [''30'', ''60'', ''90'', ''180'', ''360''] stdin of
        (Inl e, rest) \<Rightarrow> (Inl e, rest)
      | (Inr transition_days, rest) \<Rightarrow>
          (case input_until [''GLACIER'', ''GLACIER_IR''] rest of
             (Inl e, rest') \<Rightarrow> (Inl e, rest')
           | (Inr storage_class, rest') \<Rightarrow>
               (case py_int transition_days of
                  Inl e \<Rightarrow> (Inl e, rest')
                | Inr n \<Rightarrow> (Inr (n, storage_class), rest'))))"

text \<open>
  \<^verbatim>\<open>main()\<close> of \<^verbatim>\<open>s3_policy_set_prompts.py\<close>: the prompts come after the usage check
  and before the \<^verbatim>\<open>try\<close>, so an exception of theirs ends the process with status 1.
\<close>

definition prompts_main ::
  "s3_env \<Rightarrow> profile list \<Rightarrow> string list \<Rightarrow> string list \<Rightarrow> s3_event list \<times> int" where
  "prompts_main env AWS_PROFILES argv stdin =
     (if length argv < 2 then ([Log ERROR Usage], 1)
      else
        (let csv_file_path = argv ! 1;
             es = [Log INFO Starting]
         in case get_lifecycle_input stdin of
              (Inl e, _) \<Rightarrow> (es, 1)
            | (Inr (transition_days, storage_class), _) \<Rightarrow>
                (case process_buckets (prompts_create_lifecycle_policy transition_days storage_class)
                        env AWS_PROFILES es csv_file_path of
                   (es', Inr _) \<Rightarrow> (es @ es' @ [Log INFO Process_completed], 0)
                 | (es', Inl e) \<Rightarrow> (es @ es' @ [Log ERROR (Process_terminated e)], 1))))"

subsection \<open>Reading the events of a run\<close>

text \<open>The retention updates issued: profile, region, log group name, days.\<close>

fun put_of :: "cw_event \<Rightarrow> (profile \<times> region \<times> string \<times> int) option" where
  "put_of (Call (Put_retention_policy p r name days ok)) = Some (p, r, name, days)"
| "put_of e = None"

definition puts_of :: "cw_event list \<Rightarrow> (profile \<times> region \<times> string \<times> int) list" where
  "puts_of es = List.map_filter put_of es"

text \<open>The log groups skipped, as the log says: profile, log group name, observed retention.\<close>

fun skip_of :: "cw_event \<Rightarrow> (profile \<times> string \<times> int option) option" where
  "skip_of (Log INFO (Skipping p name ret)) = Some (p, name, ret)"
| "skip_of e = None"

definition skips_of :: "cw_event list \<Rightarrow> (profile \<times> string \<times> int option) list" where
  "skips_of es = List.map_filter skip_of es"

text \<open>The log group records the listing returned, page after page.\<close>

fun listed_of :: "cw_event \<Rightarrow> (profile \<times> region \<times> log_group) list" where
  "listed_of (Call (Describe_log_groups_page p r groups)) = map (\<lambda>g. (p, r, g)) groups"
| "listed_of e = []"

definition observed :: "cw_event list \<Rightarrow> (profile \<times> region \<times> log_group) list" where
  "observed es = concat (map listed_of es)"

text \<open>
  The update the conditional script owes to an observed record: one to \<open>RETENTION_DAYS\<close>
  when the record's retention is \<open>TARGET_RETENTION_DAYS\<close>, none otherwise.
\<close>

definition triggered :: "cw_vars \<Rightarrow> log_group \<Rightarrow> bool" where
  "triggered vars g \<longleftrightarrow> retentionInDays g = Some (TARGET_RETENTION_DAYS vars)"

definition updates_due ::
  "cw_vars \<Rightarrow> (profile \<times> region \<times> log_group) list \<Rightarrow> (profile \<times> region \<times> string \<times> int) list" where
  "updates_due vars obs =
     map (\<lambda>(p, r, g). (p, r, logGroupName g, RETENTION_DAYS vars))
       (filter (\<lambda>(p, r, g). triggered vars g) obs)"

text \<open>The (profile, region) a call is made under; the logger and the console have none.\<close>

fun scope_of :: "cw_call \<Rightarrow> (profile \<times> region) option" where
  "scope_of (Logs_client p r ok) = Some (p, r)"
| "scope_of (Describe_log_groups_page p r groups) = Some (p, r)"
| "scope_of (Describe_log_groups_raises p r) = Some (p, r)"
| "scope_of (Put_retention_policy p r name days ok) = Some (p, r)"
| "scope_of (Setup_logging p ok) = None"
| "scope_of Print_complete = None"

definition scopes_of :: "cw_event list \<Rightarrow> (profile \<times> region) list" where
  "scopes_of es = List.map_filter scope_of (calls_of es)"

text \<open>The profiles whose turn began, in order.\<close>

fun setup_of :: "cw_call \<Rightarrow> profile option" where
  "setup_of (Setup_logging p ok) = Some p"
| "setup_of c = None"

definition setups_of :: "cw_event list \<Rightarrow> profile list" where
  "setups_of es = List.map_filter setup_of (calls_of es)"




text \<open>S3: the existence checks made, bucket and profile, in order.\<close>

fun head_of :: "s3_call \<Rightarrow> (str \<times> profile) option" where
  "head_of (Head_bucket p b r) = Some (b, p)"
| "head_of c = None"

definition heads_of :: "s3_event list \<Rightarrow> (str \<times> profile) list" where
  "heads_of es = List.map_filter head_of (calls_of es)"



text \<open>
  S3: the targets of a file, in the order of the file: the stripped first fields that are
  not empty, of the rows before the first row without a field.
\<close>

definition targets :: "str list list \<Rightarrow> str list" where
  "targets rows = filter (\<lambda>b. b \<noteq> []) (map (\<lambda>row. strip (hd row)) (takeWhile (\<lambda>row. row \<noteq> []) rows))"

text \<open>
  S3: in every rule, each transition comes before the expiration, for current and for
  non-current versions.
\<close>

definition transitions_before_expiration :: "lifecycle_configuration \<Rightarrow> bool" where
  "transitions_before_expiration config =
     list_all (\<lambda>rule.
         list_all (\<lambda>t. Days t < Expiration_Days rule)
           (case Transitions rule of None \<Rightarrow> [] | Some ts \<Rightarrow> ts)
       \<and> list_all (\<lambda>t. NoncurrentDays t < NoncurrentVersionExpiration_NoncurrentDays rule)
           (case NoncurrentVersionTransitions rule of None \<Rightarrow> [] | Some ts \<Rightarrow> ts))
       (Rules config)"

text \<open>S3: the configurations put, with bucket.\<close>

fun config_of :: "s3_call \<Rightarrow> (str \<times> lifecycle_configuration) option" where
  "config_of (Put_bucket_lifecycle_configuration p b config r) = Some (b, config)"
| "config_of c = None"

definition configs_of :: "s3_event list \<Rightarrow> (str \<times> lifecycle_configuration) list" where
  "configs_of es = List.map_filter config_of (calls_of es)"

subsection \<open>The scripts by name\<close>

text \<open>
  The three S3 scripts differ in the configuration they build, and in nothing else that
  \<^verbatim>\<open>process_buckets\<close> sees; the two CloudWatch scripts differ in the body of the inner
  loop. A property of all of them is stated over these names.
\<close>

datatype s3_script = Expire | Glacier glacier_vars | Prompts int string

fun lifecycle_config_of :: "s3_script \<Rightarrow> str \<Rightarrow> lifecycle_configuration" where
  "lifecycle_config_of Expire bucket_name = expire_lifecycle_config bucket_name"
| "lifecycle_config_of (Glacier vars) bucket_name = glacier_lifecycle_config vars bucket_name"
| "lifecycle_config_of (Prompts transition_days storage_class) bucket_name =
     prompts_lifecycle_config bucket_name transition_days storage_class"

fun create_lifecycle_policy ::
  "s3_script \<Rightarrow> s3_env \<Rightarrow> s3_event list \<Rightarrow> str \<Rightarrow> profile \<Rightarrow> s3_event list \<times> (py_error + unit)" where
  "create_lifecycle_policy Expire = expire_create_lifecycle_policy"
| "create_lifecycle_policy (Glacier vars) = glacier_create_lifecycle_policy vars"
| "create_lifecycle_policy (Prompts transition_days storage_class) =
     prompts_create_lifecycle_policy transition_days storage_class"

datatype cw_mode = Conditional | Unconditional

fun on_log_group ::
  "cw_mode \<Rightarrow> cw_vars \<Rightarrow> cw_env \<Rightarrow> profile \<Rightarrow> region \<Rightarrow> cw_event list \<Rightarrow> log_group
    \<Rightarrow> cw_event list \<times> (py_error + unit)" where
  "on_log_group Conditional = target_log_group"
| "on_log_group Unconditional = all_log_group"



text \<open>The clients created: the (profile, region) scopes opened, in order.\<close>

fun opened_by :: "cw_call \<Rightarrow> (profile \<times> region) option" where
  "opened_by (Logs_client p r ok) = Some (p, r)"
| "opened_by c = None"

definition opened :: "cw_call list \<Rightarrow> (profile \<times> region) list" where
  "opened cs = List.map_filter opened_by cs"






section \<open>Environments of the worked examples\<close>

text \<open>
  A provider that answers every call, and a file system that holds the given rows under
  every path.
\<close>

definition obliging_s3 :: "str list list \<Rightarrow> s3_env" where
  "obliging_s3 rows =
     \<lparr> open_csv = (\<lambda>path. Rows rows),
       s3_client = (\<lambda>h profile. Returned),
       head_bucket = (\<lambda>h profile bucket. Returned),
       put_bucket_lifecycle_configuration = (\<lambda>h profile bucket config. Returned) \<rparr>"

text \<open>
  The same, but for one bucket that does not exist: \<^verbatim>\<open>head_bucket\<close> raises
  \<^verbatim>\<open>ClientError\<close> for it.
\<close>

definition missing_bucket_s3 :: "str list list \<Rightarrow> str \<Rightarrow> s3_env" where
  "missing_bucket_s3 rows missing =
     \<lparr> open_csv = (\<lambda>path. Rows rows),
       s3_client = (\<lambda>h profile. Returned),
       head_bucket = (\<lambda>h profile bucket. if bucket = missing then Raised_ClientError else Returned),
       put_bucket_lifecycle_configuration = (\<lambda>h profile bucket config. Returned) \<rparr>"


text \<open>
  The variables of \<^verbatim>\<open>s3_glacier_expire.py\<close> with the two day counts exchanged: the
  transition after 365 days, the expiration after 180.
\<close>

definition late_glacier_vars :: glacier_vars where
  "late_glacier_vars =
     \<lparr> LIFECYCLE_DAYS_TO_GLACIER = 365,
       LIFECYCLE_DAYS_TO_EXPIRATION = 180,
       LIFECYCLE_NONCURRENT_DAYS_TO_GLACIER = 365,
       LIFECYCLE_NONCURRENT_DAYS_TO_EXPIRATION = 180,
       GLACIER_STORAGE_CLASS = ''GLACIER_IR'' \<rparr>"

text \<open>
  A CloudWatch provider that answers every call with the given listing, and three log
  groups: one at 14 days, one at 30, one that never expires.
\<close>

definition obliging_cw :: "(profile \<Rightarrow> region \<Rightarrow> page_result list) \<Rightarrow> cw_env" where
  "obliging_cw listing =
     \<lparr> setup_logging_returns = (\<lambda>h profile. True),
       logs_client_returns = (\<lambda>h profile region. True),
       describe_log_groups = (\<lambda>h. listing),
       put_retention_policy_returns = (\<lambda>h profile region name days. True) \<rparr>"

definition g1 :: log_group where
  "g1 = \<lparr> logGroupName = ''g1'', retentionInDays = Some 14 \<rparr>"

definition g2 :: log_group where
  "g2 = \<lparr> logGroupName = ''g2'', retentionInDays = Some 30 \<rparr>"

definition g3 :: log_group where
  "g3 = \<lparr> logGroupName = ''g3'', retentionInDays = None \<rparr>"

text \<open>
  Listings: one page of the three groups in \<^verbatim>\<open>us-east-1\<close> and nothing elsewhere; a
  listing that raises in \<^verbatim>\<open>us-east-1\<close> and returns a page elsewhere; and, for two
  profiles and two regions, a listing that raises for the first profile in its first
  region.
\<close>

definition one_page_in_us_east_1 :: "profile \<Rightarrow> region \<Rightarrow> page_result list" where
  "one_page_in_us_east_1 profile region =
     (if region = ''us-east-1'' then [Page [g1, g2, g3]] else [])"

definition listing_raises_in_us_east_1 :: "profile \<Rightarrow> region \<Rightarrow> page_result list" where
  "listing_raises_in_us_east_1 profile region =
     (if region = ''us-east-1'' then [Page_raises] else [Page [g1]])"

definition two_profiles :: cw_vars where
  "two_profiles = shipped_cw_vars \<lparr> regions := [''us-east-1'', ''us-west-1''],
                                    aws_profiles := [''dev'', ''test''] \<rparr>"

definition listing_raises_for_dev :: "profile \<Rightarrow> region \<Rightarrow> page_result list" where
  "listing_raises_for_dev profile region =
     (if profile = ''dev'' \<and> region = ''us-east-1'' then [Page_raises] else [Page [g1]])"

section \<open>Properties\<close>

subsection \<open>Loops and the events they leave\<close>

text \<open>
  A property of the events and the result that holds of every turn of a loop, and of two
  runs in sequence when it holds of each, holds of the loop.
\<close>

lemma for_each_rule:
  assumes nil: "P ([], Inr ())"
    and body: "\<And>h x. x \<in> set xs \<Longrightarrow> P (body h x)"
    and seq: "\<And>es es' r. P (es, Inr ()) \<Longrightarrow> P (es', r) \<Longrightarrow> P (es @ es', r)"
  shows "P (for_each body h xs)"
  using body
proof (induction xs arbitrary: h)
  case Nil
  show ?case by (simp add: nil)
next
  case (Cons x xs)
  obtain es r where b: "body h x = (es, r)" by (cases "body h x")
  have Pb: "P (es, r)" using Cons.prems [of x h] b by simp
  show ?case
  proof (cases r)
    case (Inl e)
    with b Pb show ?thesis by simp
  next
    case (Inr u)
    obtain es' r' where f: "for_each body (h @ es) xs = (es', r')"
      by (cases "for_each body (h @ es) xs")
    have "P (es', r')" using Cons.IH [of "h @ es"] Cons.prems f by simp
    with Pb Inr have "P (es @ es', r')" using seq by simp
    with b Inr f show ?thesis by simp
  qed
qed

lemma calls_of_append [simp]: "calls_of (xs @ ys) = calls_of xs @ calls_of ys"
  by (simp add: calls_of_def List.map_filter_def)

lemma calls_of_Nil [simp]: "calls_of [] = []"
  by (simp add: calls_of_def List.map_filter_def)

lemma calls_of_Call [simp]: "calls_of (Call c # es) = c # calls_of es"
  by (simp add: calls_of_def List.map_filter_def)

lemma calls_of_Log [simp]: "calls_of (Log l m # es) = calls_of es"
  by (simp add: calls_of_def List.map_filter_def)

lemma map_filter_append: "List.map_filter f (xs @ ys) = List.map_filter f xs @ List.map_filter f ys"
  by (simp add: List.map_filter_def)

lemma puts_of_append [simp]: "puts_of (xs @ ys) = puts_of xs @ puts_of ys"
  by (simp add: puts_of_def map_filter_append)

lemma puts_of_Nil [simp]: "puts_of [] = []"
  by (simp add: puts_of_def)

lemma puts_of_Cons: "puts_of (e # es) = (case put_of e of None \<Rightarrow> puts_of es | Some x \<Rightarrow> x # puts_of es)"
  by (cases "put_of e") (simp_all add: puts_of_def)

lemma skips_of_append [simp]: "skips_of (xs @ ys) = skips_of xs @ skips_of ys"
  by (simp add: skips_of_def map_filter_append)

lemma skips_of_Nil [simp]: "skips_of [] = []"
  by (simp add: skips_of_def)

lemma skips_of_Cons: "skips_of (e # es) = (case skip_of e of None \<Rightarrow> skips_of es | Some x \<Rightarrow> x # skips_of es)"
  by (cases "skip_of e") (simp_all add: skips_of_def)

lemma observed_append [simp]: "observed (xs @ ys) = observed xs @ observed ys"
  by (simp add: observed_def)

lemma observed_Nil [simp]: "observed [] = []"
  by (simp add: observed_def)

lemma observed_Cons [simp]: "observed (e # es) = listed_of e @ observed es"
  by (simp add: observed_def)

lemma updates_due_append [simp]:
  "updates_due vars (xs @ ys) = updates_due vars xs @ updates_due vars ys"
  by (simp add: updates_due_def)

lemma updates_due_Nil [simp]: "updates_due vars [] = []"
  by (simp add: updates_due_def)

lemma heads_of_append [simp]: "heads_of (xs @ ys) = heads_of xs @ heads_of ys"
  by (simp add: heads_of_def map_filter_append)

lemma heads_of_Nil [simp]: "heads_of [] = []"
  by (simp add: heads_of_def)

lemma heads_of_Log [simp]: "heads_of (Log l m # es) = heads_of es"
  by (simp add: heads_of_def)

lemma scopes_of_append [simp]: "scopes_of (xs @ ys) = scopes_of xs @ scopes_of ys"
  by (simp add: scopes_of_def map_filter_append)

lemma scopes_of_Nil [simp]: "scopes_of [] = []"
  by (simp add: scopes_of_def)

lemma scopes_of_Log [simp]: "scopes_of (Log l m # es) = scopes_of es"
  by (simp add: scopes_of_def)

lemma scopes_of_Call: "scopes_of (Call c # es) =
    (case scope_of c of None \<Rightarrow> scopes_of es | Some s \<Rightarrow> s # scopes_of es)"
  by (cases "scope_of c") (simp_all add: scopes_of_def)

lemma setups_of_append [simp]: "setups_of (xs @ ys) = setups_of xs @ setups_of ys"
  by (simp add: setups_of_def map_filter_append)

lemma setups_of_Nil [simp]: "setups_of [] = []"
  by (simp add: setups_of_def)

lemma setups_of_Log [simp]: "setups_of (Log l m # es) = setups_of es"
  by (simp add: setups_of_def)


subsection \<open>The names of the examples, stripped\<close>

lemma str_of_eq_iff [simp]: "str_of a = str_of b \<longleftrightarrow> a = b"
  by (simp add: str_of_def inj_map_eq_map inj_of_char)

lemma str_of_Nil_iff [simp]: "str_of s = [] \<longleftrightarrow> s = []"
  by (simp add: str_of_def)

lemma strip_no_break_space: "strip (0xA0 # str_of ''bucket-a'' @ [0x3000]) = str_of ''bucket-a''"
  by (simp add: str_of_def strip_def isspace_def)

lemma strip_only_spaces: "strip [0xA0, 0x20, 0x85] = []"
  by (simp add: strip_def isspace_def)

lemma strip_bucket_a: "strip (str_of ''bucket-a'') = str_of ''bucket-a''"
  by (simp add: str_of_def strip_def isspace_def)

lemma strip_bucket_b: "strip (str_of '' bucket-b '') = str_of ''bucket-b''"
  by (simp add: str_of_def strip_def isspace_def)

lemma strip_bucket_x: "strip (str_of ''bucket-x'') = str_of ''bucket-x''"
  by (simp add: str_of_def strip_def isspace_def)

subsection \<open>CloudWatch: a property of the pieces is a property of the run\<close>

text \<open>
  A property of event lists that holds of the empty list, of every log record, of the
  calls that open a scope and of the events of every page, and that is kept by appending,
  holds of the events of each layer of the script.
\<close>

lemma set_retention_events_rule:
  assumes nil: "P []"
    and app: "\<And>a b. P a \<Longrightarrow> P b \<Longrightarrow> P (a @ b)"
    and log: "\<And>l m. P [Log l m]"
    and client: "\<And>ok. P [Call (Logs_client p r ok)]"
    and page: "\<And>h pr. P (fst (on_page (og p r) p r h pr))"
  shows "P (fst (set_retention_for_log_groups og env h r p))"
proof -
  have loop: "P (fst (for_each (on_page (og p r) p r) h' prs))" for h' prs
    by (rule for_each_rule [where P = "\<lambda>x. P (fst x)"]) (simp_all add: nil page app)
  have two: "P [Log l m, Log l' m']" for l m l' m'
    using app [OF log [of l m] log [of l' m']] by simp
  define ok where "ok = logs_client_returns env h p r"
  define es where "es = [Call (Logs_client p r ok) :: cw_event]"
  show ?thesis
  proof (cases ok)
    case False
    then show ?thesis
      unfolding set_retention_for_log_groups_def Let_def ok_def [symmetric]
      using app [OF client [of False] two] by simp
  next
    case True
    obtain es' res where f: "for_each (on_page (og p r) p r) (h @ es)
        (describe_log_groups env (h @ es) p r) = (es', res)"
      by (cases "for_each (on_page (og p r) p r) (h @ es) (describe_log_groups env (h @ es) p r)")
    have Pes': "P es'" using loop [of "h @ es" "describe_log_groups env (h @ es) p r"] f by simp
    have P1: "P (es @ es')" using app [OF client [of ok] Pes'] by (simp add: es_def)
    show ?thesis
    proof (cases res)
      case (Inr u)
      with True f P1 show ?thesis
        unfolding set_retention_for_log_groups_def Let_def ok_def [symmetric]
        by (simp add: es_def)
    next
      case (Inl e)
      have "P ((es @ es') @ [Log ERROR (Error_in_region r p), Log ERROR Traceback])"
        by (rule app [OF P1 two])
      with Inl True f show ?thesis
        unfolding set_retention_for_log_groups_def Let_def ok_def [symmetric]
        by (simp add: es_def)
    qed
  qed
qed

lemma region_loop_events_rule:
  assumes nil: "P []"
    and app: "\<And>a b. P a \<Longrightarrow> P b \<Longrightarrow> P (a @ b)"
    and log: "\<And>l m. P [Log l m]"
    and client: "\<And>r ok. P [Call (Logs_client p r ok)]"
    and page: "\<And>r h pr. P (fst (on_page (og p r) p r h pr))"
  shows "P (fst (for_each (on_region og env p) h rs))"
proof (rule for_each_rule [where P = "\<lambda>x. P (fst x)"])
  show "P (fst ([], Inr ()))" by (simp add: nil)
next
  fix h' r
  have "P (fst (set_retention_for_log_groups og env (h' @ [Log INFO (Processing_region r)]) r p))"
    by (rule set_retention_events_rule [where P = P]) (simp_all add: nil app log client page)
  then have "P ([Log INFO (Processing_region r)] @
      fst (set_retention_for_log_groups og env (h' @ [Log INFO (Processing_region r)]) r p))"
    by (rule app [OF log])
  then show "P (fst (on_region og env p h' r))"
    by (simp add: on_region_def Let_def case_prod_beta)
next
  fix es es' :: "cw_event list" and res :: "py_error + unit"
  assume "P (fst (es, Inr ()))" "P (fst (es', res))"
  then show "P (fst (es @ es', res))" by (simp add: app)
qed

lemma profile_turn_events_rule:
  assumes nil: "P []"
    and app: "\<And>a b. P a \<Longrightarrow> P b \<Longrightarrow> P (a @ b)"
    and log: "\<And>l m. P [Log l m]"
    and stp: "\<And>ok. P [Call (Setup_logging p ok)]"
    and client: "\<And>r ok. P [Call (Logs_client p r ok)]"
    and page: "\<And>r h pr. P (fst (on_page (og p r) p r h pr))"
  shows "P (profile_turn og vars env h p)"
proof -
  have two: "P [Log l m, Log l' m']" for l m l' m'
    using app [OF log [of l m] log [of l' m']] by simp
  define ok where "ok = setup_logging_returns env h p"
  define es where "es = [Call (Setup_logging p ok) :: cw_event]"
  define es' where "es' = es @ [Log INFO (Started_processing p)]"
  have Pes: "P es" by (simp add: es_def stp)
  have Pes': "P es'" unfolding es'_def by (rule app [OF Pes log])
  have Preg: "P (fst (for_each (on_region og env p) (h @ es') (regions vars)))"
    by (rule region_loop_events_rule [where P = P]) (simp_all add: nil app log client page)
  show ?thesis
  proof (cases ok)
    case False
    then show ?thesis
      unfolding profile_turn_def Let_def ok_def [symmetric] es_def [symmetric]
      using app [OF Pes two] by simp
  next
    case True
    obtain es'' res where f: "for_each (on_region og env p) (h @ es') (regions vars) = (es'', res)"
      by (cases "for_each (on_region og env p) (h @ es') (regions vars)")
    have P2: "P es''" using Preg f by simp
    show ?thesis
    proof (cases res)
      case (Inr u)
      have "P (es' @ es'' @ [Log INFO (Update_complete p)])"
        by (intro app Pes' P2 log)
      with True f Inr show ?thesis
        unfolding profile_turn_def Let_def ok_def [symmetric] es_def [symmetric]
          es'_def [symmetric]
        by simp
    next
      case (Inl e)
      have "P (es' @ es'' @ [Log ERROR (Error_for_profile p), Log ERROR Traceback])"
        by (intro app Pes' P2 two)
      with True f Inl show ?thesis
        unfolding profile_turn_def Let_def ok_def [symmetric] es_def [symmetric]
          es'_def [symmetric]
        by simp
    qed
  qed
qed

lemma for_profiles_events_rule:
  assumes nil: "P []"
    and app: "\<And>a b. P a \<Longrightarrow> P b \<Longrightarrow> P (a @ b)"
    and log: "\<And>l m. P [Log l m]"
    and stp: "\<And>p ok. P [Call (Setup_logging p ok)]"
    and client: "\<And>p r ok. P [Call (Logs_client p r ok)]"
    and page: "\<And>p r h pr. P (fst (on_page (og p r) p r h pr))"
  shows "P (fst (for_profiles og vars env bound h ps))"
proof (induction ps arbitrary: h bound)
  case Nil
  show ?case by (simp add: nil)
next
  case (Cons p ps)
  have turn: "P (profile_turn og vars env h p)"
    by (rule profile_turn_events_rule [where P = P]) (simp_all add: nil app log stp client page)
  show ?case
  proof (cases "\<not> setup_logging_returns env h p \<and> \<not> bound")
    case True
    then show ?thesis using stp [of p False] by simp
  next
    case False
    have "P (profile_turn og vars env h p @
             fst (for_profiles og vars env True (h @ profile_turn og vars env h p) ps))"
      by (rule app [OF turn Cons.IH])
    with False show ?thesis
      by (auto simp: Let_def case_prod_beta)
  qed
qed

lemma cw_script_events_rule:
  assumes nil: "P []"
    and app: "\<And>a b. P a \<Longrightarrow> P b \<Longrightarrow> P (a @ b)"
    and log: "\<And>l m. P [Log l m]"
    and stp: "\<And>p ok. P [Call (Setup_logging p ok)]"
    and client: "\<And>p r ok. P [Call (Logs_client p r ok)]"
    and prt: "P [Call Print_complete]"
    and page: "\<And>p r h pr. P (fst (on_page (og p r) p r h pr))"
  shows "P (fst (cw_script og vars env))"
proof -
  obtain es res where f: "process_log_groups og vars env [] = (es, res)"
    by (cases "process_log_groups og vars env []")
  have "P (fst (for_profiles og vars env False [] (aws_profiles vars)))"
    by (rule for_profiles_events_rule [where P = P]) (simp_all add: nil app log stp client page)
  then have Pes: "P es" using f by (simp add: process_log_groups_def)
  show ?thesis
  proof (cases res)
    case (Inl e)
    with f Pes show ?thesis by (simp add: cw_script_def)
  next
    case (Inr u)
    with f app [OF Pes prt] show ?thesis by (simp add: cw_script_def)
  qed
qed

text \<open>
  Both bodies of the inner loop make at most one call, a \<^verbatim>\<open>put_retention_policy\<close> to
  \<open>RETENTION_DAYS\<close> for the group at hand.
\<close>

lemma on_log_group_calls:
  "calls_of (fst (on_log_group mode vars env p r h g)) = []
   \<or> (\<exists>ok. calls_of (fst (on_log_group mode vars env p r h g)) =
         [Put_retention_policy p r (logGroupName g) (RETENTION_DAYS vars) ok])"
  by (cases mode; cases "retentionInDays g")
     (auto simp: target_log_group_def all_log_group_def Let_def)

subsection \<open>CloudWatch: the conditional update\<close>

lemma target_log_group_puts:
  "puts_of (fst (target_log_group vars env p r h g)) =
     (if triggered vars g then [(p, r, logGroupName g, RETENTION_DAYS vars)] else [])"
  by (cases "retentionInDays g")
     (simp_all add: target_log_group_def triggered_def Let_def puts_of_Cons)

lemma target_log_group_skips:
  "skips_of (fst (target_log_group vars env p r h g)) =
     (if triggered vars g then [] else [(p, logGroupName g, retentionInDays g)])"
  by (cases "retentionInDays g")
     (simp_all add: target_log_group_def triggered_def Let_def skips_of_Cons)

lemma target_log_group_observed [simp]:
  "observed (fst (target_log_group vars env p r h g)) = []"
  by (cases "retentionInDays g") (simp_all add: target_log_group_def Let_def)

lemma target_page_puts:
  "subseq (puts_of (fst (for_each (target_log_group vars env p r) h gs)))
          (updates_due vars (map (\<lambda>g. (p, r, g)) gs))
   \<and> (snd (for_each (target_log_group vars env p r) h gs) = Inr ()
        \<longrightarrow> puts_of (fst (for_each (target_log_group vars env p r) h gs))
            = updates_due vars (map (\<lambda>g. (p, r, g)) gs)
          \<and> skips_of (fst (for_each (target_log_group vars env p r) h gs))
            = map (\<lambda>g. (p, logGroupName g, retentionInDays g)) (filter (\<lambda>g. \<not> triggered vars g) gs))
   \<and> observed (fst (for_each (target_log_group vars env p r) h gs)) = []"
proof (induction gs arbitrary: h)
  case Nil
  show ?case by simp
next
  case (Cons g gs)
  obtain es res where b: "target_log_group vars env p r h g = (es, res)"
    by (cases "target_log_group vars env p r h g")
  have pu: "puts_of es = (if triggered vars g then [(p, r, logGroupName g, RETENTION_DAYS vars)] else [])"
    using target_log_group_puts [of vars env p r h g] b by simp
  have sk: "skips_of es = (if triggered vars g then [] else [(p, logGroupName g, retentionInDays g)])"
    using target_log_group_skips [of vars env p r h g] b by simp
  have ob: "observed es = []"
    using target_log_group_observed [of vars env p r h g] b by simp
  show ?case
  proof (cases res)
    case (Inl e)
    with b pu ob show ?thesis by (simp add: updates_due_def)
  next
    case (Inr u)
    obtain es' res' where f: "for_each (target_log_group vars env p r) (h @ es) gs = (es', res')"
      by (cases "for_each (target_log_group vars env p r) (h @ es) gs")
    from Cons.IH [of "h @ es"] f b Inr pu sk ob show ?thesis
      by (auto simp: updates_due_def)
  qed
qed

text \<open>
  C1. In the conditional script a log group gets its update exactly when its record has
  a \<^verbatim>\<open>retentionInDays\<close> and that equals the trigger value \<open>TARGET_RETENTION_DAYS\<close>: then
  one \<^verbatim>\<open>put_retention_policy\<close> to \<open>RETENTION_DAYS\<close> is issued for the group and nothing
  is logged as skipped; when the field is absent or holds any other value, no update is
  issued and the group is logged as skipped. Over a page handled to its end, the updates
  issued are those of the records on the trigger value, in the order of the page, and the
  groups skipped are the others.
\<close>

theorem conditional_update_iff_trigger:
  "puts_of (fst (target_log_group vars env p r h g)) =
     (if retentionInDays g = Some (TARGET_RETENTION_DAYS vars)
      then [(p, r, logGroupName g, RETENTION_DAYS vars)] else [])
   \<and> skips_of (fst (target_log_group vars env p r h g)) =
     (if retentionInDays g = Some (TARGET_RETENTION_DAYS vars)
      then [] else [(p, logGroupName g, retentionInDays g)])
   \<and> (snd (for_each (target_log_group vars env p r) h gs) = Inr ()
        \<longrightarrow> puts_of (fst (for_each (target_log_group vars env p r) h gs))
            = map (\<lambda>g. (p, r, logGroupName g, RETENTION_DAYS vars))
                (filter (\<lambda>g. retentionInDays g = Some (TARGET_RETENTION_DAYS vars)) gs)
          \<and> skips_of (fst (for_each (target_log_group vars env p r) h gs))
            = map (\<lambda>g. (p, logGroupName g, retentionInDays g))
                (filter (\<lambda>g. retentionInDays g \<noteq> Some (TARGET_RETENTION_DAYS vars)) gs))"
  using target_log_group_puts [of vars env p r h g] target_log_group_skips [of vars env p r h g]
    target_page_puts [of vars env p r h gs]
  by (simp add: triggered_def updates_due_def filter_map comp_def)

theorem conditional_update_iff_trigger_witness:
  "puts_of (fst (target_log_group shipped_cw_vars (obliging_cw one_page_in_us_east_1)
                   ''accountid'' ''us-east-1'' [] g2)) = []
   \<and> skips_of (fst (target_log_group shipped_cw_vars (obliging_cw one_page_in_us_east_1)
                   ''accountid'' ''us-east-1'' [] g2)) = [(''accountid'', ''g2'', Some 30)]
   \<and> snd (for_each (target_log_group shipped_cw_vars (obliging_cw one_page_in_us_east_1)
                   ''accountid'' ''us-east-1'') [] [g1, g2, g3]) = Inr ()
   \<and> puts_of (fst (for_each (target_log_group shipped_cw_vars (obliging_cw one_page_in_us_east_1)
                   ''accountid'' ''us-east-1'') [] [g1, g2, g3]))
       = [(''accountid'', ''us-east-1'', ''g1'', 30)]
   \<and> skips_of (fst (for_each (target_log_group shipped_cw_vars (obliging_cw one_page_in_us_east_1)
                   ''accountid'' ''us-east-1'') [] [g1, g2, g3]))
       = [(''accountid'', ''g2'', Some 30), (''accountid'', ''g3'', None)]"
proof -
  have r: "snd (for_each (target_log_group shipped_cw_vars (obliging_cw one_page_in_us_east_1)
                   ''accountid'' ''us-east-1'') [] [g1, g2, g3]) = Inr ()"
    by (simp add: target_log_group_def shipped_cw_vars_def obliging_cw_def g1_def g2_def g3_def
        Let_def)
  show ?thesis
    using r conditional_update_iff_trigger [of shipped_cw_vars "obliging_cw one_page_in_us_east_1" "''accountid''"
        "''us-east-1''" "[]" g2 "[g1, g2, g3]"]
    by (simp add: shipped_cw_vars_def g1_def g2_def g3_def)
qed

lemma on_page_target_due:
  "subseq (puts_of (fst (on_page (target_log_group vars env p r) p r h pr)))
     (updates_due vars (observed (fst (on_page (target_log_group vars env p r) p r h pr))))"
proof (cases pr)
  case Page_raises
  then show ?thesis by (simp add: on_page_def puts_of_Cons)
next
  case (Page gs)
  let ?h = "h @ [Call (Describe_log_groups_page p r gs)]"
  have "subseq (puts_of (fst (for_each (target_log_group vars env p r) ?h gs)))
          (updates_due vars (map (\<lambda>g. (p, r, g)) gs))"
    and "observed (fst (for_each (target_log_group vars env p r) ?h gs)) = []"
    using target_page_puts [of vars env p r ?h gs] by simp_all
  with Page show ?thesis
    by (simp add: on_page_def Let_def case_prod_beta puts_of_Cons)
qed

lemma target_script_due:
  "subseq (puts_of (fst (target_script vars env)))
     (updates_due vars (observed (fst (target_script vars env))))"
  unfolding target_script_def
proof (rule cw_script_events_rule
    [where P = "\<lambda>es. subseq (puts_of es) (updates_due vars (observed es))"])
  fix a b :: "cw_event list"
  assume "subseq (puts_of a) (updates_due vars (observed a))"
    and "subseq (puts_of b) (updates_due vars (observed b))"
  then show "subseq (puts_of (a @ b)) (updates_due vars (observed (a @ b)))"
    by (simp add: list_emb_append_mono)
qed (simp_all add: puts_of_Cons on_page_target_due)

lemma example_target_run:
  "target_script shipped_cw_vars (obliging_cw one_page_in_us_east_1) =
   ([Call (Setup_logging ''accountid'' True),
     Log INFO (Started_processing ''accountid''),
     Log INFO (Processing_region ''us-east-1''),
     Call (Logs_client ''accountid'' ''us-east-1'' True),
     Call (Describe_log_groups_page ''accountid'' ''us-east-1'' [g1, g2, g3]),
     Log INFO (Setting_retention ''accountid'' ''g1''),
     Call (Put_retention_policy ''accountid'' ''us-east-1'' ''g1'' 30 True),
     Log INFO (Skipping ''accountid'' ''g2'' (Some 30)),
     Log INFO (Skipping ''accountid'' ''g3'' None),
     Log INFO (Processing_region ''us-west-1''),
     Call (Logs_client ''accountid'' ''us-west-1'' True),
     Log INFO (Processing_region ''us-west-2''),
     Call (Logs_client ''accountid'' ''us-west-2'' True),
     Log INFO (Processing_region ''us-east-2''),
     Call (Logs_client ''accountid'' ''us-east-2'' True),
     Log INFO (Update_complete ''accountid''),
     Call Print_complete], 0)"
  by (simp add: target_script_def cw_script_def process_log_groups_def shipped_cw_vars_def
      profile_turn_def on_region_def set_retention_for_log_groups_def on_page_def
      target_log_group_def obliging_cw_def one_page_in_us_east_1_def g1_def g2_def g3_def Let_def)

text \<open>
  C9. With the shipped values (trigger 14, new retention 30), in every run of the
  conditional script the updates issued are, in order, among the updates due to the
  records the listing returned: each is a \<^verbatim>\<open>put_retention_policy\<close> to 30 days, under the
  profile and region of a record observed with a retention of exactly 14, for the group
  of that record; each such record accounts for at most one update. A record observed
  with another retention, or with none, accounts for no call. The script makes no other
  call that changes state: the others open a client or list.
\<close>

theorem target_script_only_promotes_14_to_30:
  "subseq (puts_of (fst (target_script shipped_cw_vars env)))
     (map (\<lambda>(p, r, g). (p, r, logGroupName g, 30))
        (filter (\<lambda>(p, r, g). retentionInDays g = Some 14)
           (observed (fst (target_script shipped_cw_vars env)))))"
  using target_script_due [of shipped_cw_vars env]
  by (simp add: updates_due_def triggered_def shipped_cw_vars_def)

theorem target_script_only_promotes_14_to_30_witness:
  "puts_of (fst (target_script shipped_cw_vars (obliging_cw one_page_in_us_east_1)))
     = [(''accountid'', ''us-east-1'', ''g1'', 30)]
   \<and> observed (fst (target_script shipped_cw_vars (obliging_cw one_page_in_us_east_1)))
     = [(''accountid'', ''us-east-1'', g1), (''accountid'', ''us-east-1'', g2),
        (''accountid'', ''us-east-1'', g3)]
   \<and> subseq (puts_of (fst (target_script shipped_cw_vars (obliging_cw one_page_in_us_east_1))))
       (map (\<lambda>(p, r, g). (p, r, logGroupName g, 30))
          (filter (\<lambda>(p, r, g). retentionInDays g = Some 14)
             (observed (fst (target_script shipped_cw_vars (obliging_cw one_page_in_us_east_1))))))"
  using target_script_only_promotes_14_to_30 [of "obliging_cw one_page_in_us_east_1"]
  by (simp add: example_target_run puts_of_Cons g1_def)

subsection \<open>S3: a property of the turns is a property of the run\<close>

lemma create_lifecycle_policy_eq:
  "create_lifecycle_policy script env h b p =
     put_lifecycle_config env h b p (lifecycle_config_of script b)"
  by (cases script)
     (simp_all add: expire_create_lifecycle_policy_def glacier_create_lifecycle_policy_def
        prompts_create_lifecycle_policy_def)

text \<open>
  What one turn of the loop over the profiles calls, and how it ends.
\<close>

lemma on_profile_calls:
  "(calls_of (fst (on_profile (create_lifecycle_policy script) env b h p)),
    snd (on_profile (create_lifecycle_policy script) env b h p)) \<in>
     {([S3_client p Raised_ClientError], Inl ClientError),
      ([S3_client p Raised_BotoCoreError], Inl BotoCoreError),
      ([S3_client p Returned, Head_bucket p b Raised_ClientError], Inl (BucketNotAccessible b)),
      ([S3_client p Returned, Head_bucket p b Raised_BotoCoreError], Inl BotoCoreError)}
     \<union> (\<lambda>r. ([S3_client p Returned, Head_bucket p b Returned,
                Put_bucket_lifecycle_configuration p b (lifecycle_config_of script b) r],
               case r of Returned \<Rightarrow> Inr ()
                | Raised_ClientError \<Rightarrow> Inl (BucketNotAccessible b)
                | Raised_BotoCoreError \<Rightarrow> Inl BotoCoreError)) ` UNIV"
  by (simp add: on_profile_def create_lifecycle_policy_eq put_lifecycle_config_def Let_def
      image_iff split: api_result.split)

text \<open>
  A property of the calls and the result that holds of the turns holds of the run.
\<close>

lemma process_buckets_calls_rule:
  assumes nil: "P ([], Inr ())"
    and seq: "\<And>cs cs' r. P (cs, Inr ()) \<Longrightarrow> P (cs', r) \<Longrightarrow> P (cs @ cs', r)"
    and err: "\<And>e. e \<in> {IndexError, FileNotFoundError, OSError} \<Longrightarrow> P ([], Inl e)"
    and turn: "\<And>b h p. P (calls_of (fst (on_profile create env b h p)),
                          snd (on_profile create env b h p))"
  shows "P (calls_of (fst (process_buckets create env profiles h path)),
            snd (process_buckets create env profiles h path))"
proof -
  let ?Q = "\<lambda>x. P (calls_of (fst x), snd x)"
  have Qseq: "?Q (es @ es', r)" if "?Q (es, Inr ())" "?Q (es', r)"
    for es es' :: "s3_event list" and r
    using that seq by simp
  have prof: "?Q (for_each (on_profile create env b) h' ps)" for b h' ps
    by (rule for_each_rule [where P = ?Q]) (simp_all add: nil turn seq)
  have row: "?Q (on_row create env profiles h' row)" for h' row
  proof (cases row)
    case Nil
    then show ?thesis by (simp add: on_row_def err)
  next
    case (Cons field rest)
    show ?thesis
    proof (cases "strip field = []")
      case True
      with Cons show ?thesis by (simp add: on_row_def nil)
    next
      case False
      with Cons prof [of "strip field" "h' @ [Log INFO (Processing_bucket (strip field))]" profiles]
      show ?thesis by (simp add: on_row_def Let_def case_prod_beta)
    qed
  qed
  have rows: "?Q (for_each (on_row create env profiles) h' rs)" for h' rs
    by (rule for_each_rule [where P = ?Q]) (simp_all add: nil row seq)
  show ?thesis
  proof (cases "open_csv env path")
    case No_such_file
    then show ?thesis by (simp add: process_buckets_def err)
  next
    case Cannot_open
    then show ?thesis by (simp add: process_buckets_def err)
  next
    case (Rows rs)
    obtain es res where f: "for_each (on_row create env profiles) h rs = (es, res)"
      by (cases "for_each (on_row create env profiles) h rs")
    with rows [of h rs] have "P (calls_of es, res)" by simp
    with Rows f show ?thesis
      by (cases res) (simp_all add: process_buckets_def)
  qed
qed

subsection \<open>S3: the static target list\<close>

text \<open>
  C2. The claim: the targets are the stripped first fields of the records, blank records
  left out, and reading them never raises, empty lines included. On the file
  \<^verbatim>\<open>bucket-a\<close>, an empty line, \<^verbatim>\<open> bucket-b \<close> the run of \<^verbatim>\<open>s3_expire.py\<close> handles
  \<^verbatim>\<open>bucket-a\<close>, then raises \<^verbatim>\<open>IndexError\<close> at the empty line: \<^verbatim>\<open>bucket-b\<close> is never
  reached.
\<close>

theorem empty_line_raises_IndexError:
  "process_buckets expire_create_lifecycle_policy
     (obliging_s3 [[str_of ''bucket-a''], [], [str_of '' bucket-b '']]) [''accountid''] [] ''buckets.csv''
   = ([Log INFO (Processing_bucket (str_of ''bucket-a'')),
       Call (S3_client ''accountid'' Returned),
       Log INFO (Using_profile ''accountid''),
       Call (Head_bucket ''accountid'' (str_of ''bucket-a'') Returned),
       Call (Put_bucket_lifecycle_configuration ''accountid'' (str_of ''bucket-a'')
               (expire_lifecycle_config (str_of ''bucket-a'')) Returned),
       Log INFO (Policy_created ''accountid'' (str_of ''bucket-a'')),
       Log ERROR (Unexpected_error IndexError)],
      Inl IndexError)"
  by (simp add: process_buckets_def obliging_s3_def on_row_def on_profile_def
      expire_create_lifecycle_policy_def put_lifecycle_config_def strip_bucket_a Let_def)

subsection \<open>S3: the existence check before the put\<close>









subsection \<open>S3: the policy builders\<close>

text \<open>
  C3. The claim: a transition day count that is not below the expiration day count makes
  the builder fail with \<^verbatim>\<open>InvalidPolicy\<close> before anything is put. No builder compares
  the two: with 365 (transition) and 180 (expiration) at the head of
  \<^verbatim>\<open>s3_glacier_expire.py\<close>, the run puts the rule on the bucket and exits with status 0.
\<close>

theorem late_transition_is_submitted:
  "snd (main (create_lifecycle_policy (Glacier late_glacier_vars)) (obliging_s3 [[str_of ''bucket-a'']])
          glacier_AWS_PROFILES [''s3_glacier_expire.py'', ''buckets.csv'']) = 0
   \<and> configs_of (fst (main (create_lifecycle_policy (Glacier late_glacier_vars))
          (obliging_s3 [[str_of ''bucket-a'']]) glacier_AWS_PROFILES
          [''s3_glacier_expire.py'', ''buckets.csv'']))
       = [(str_of ''bucket-a'', glacier_lifecycle_config late_glacier_vars (str_of ''bucket-a''))]
   \<and> map Transitions (Rules (glacier_lifecycle_config late_glacier_vars (str_of ''bucket-a'')))
       = [Some [\<lparr> Days = 365, StorageClass = ''GLACIER_IR'' \<rparr>]]
   \<and> map Expiration_Days (Rules (glacier_lifecycle_config late_glacier_vars (str_of ''bucket-a''))) = [180]
   \<and> \<not> transitions_before_expiration (glacier_lifecycle_config late_glacier_vars (str_of ''bucket-a''))"
  by (simp add: main_def process_buckets_def obliging_s3_def on_row_def on_profile_def
      glacier_create_lifecycle_policy_def put_lifecycle_config_def strip_bucket_a Let_def
      glacier_AWS_PROFILES_def configs_of_def glacier_lifecycle_config_def late_glacier_vars_def
      transitions_before_expiration_def)

text \<open>
  C3, as the code has it. A builder never fails by itself: it puts the one configuration
  it built, whatever the day counts, and raises only what the provider raised. With the
  shipped day counts of the Glacier script (180 and 365) and in the prompts script (both
  expirations are the transition day count plus 365) every transition comes before the
  expiration.
\<close>

theorem builders_submit_without_validation:
  "snd (create_lifecycle_policy script env h b p) =
     (case put_bucket_lifecycle_configuration env h p b (lifecycle_config_of script b) of
        Returned \<Rightarrow> Inr ()
      | Raised_ClientError \<Rightarrow> Inl ClientError
      | Raised_BotoCoreError \<Rightarrow> Inl BotoCoreError)
   \<and> calls_of (fst (create_lifecycle_policy script env h b p)) =
       [Put_bucket_lifecycle_configuration p b (lifecycle_config_of script b)
          (put_bucket_lifecycle_configuration env h p b (lifecycle_config_of script b))]
   \<and> transitions_before_expiration (lifecycle_config_of (Glacier shipped_glacier_vars) b)
   \<and> transitions_before_expiration (lifecycle_config_of (Prompts transition_days storage_class) b)"
  by (simp add: create_lifecycle_policy_eq put_lifecycle_config_def Let_def
      transitions_before_expiration_def glacier_lifecycle_config_def shipped_glacier_vars_def
      prompts_lifecycle_config_def split: api_result.split)

theorem builders_submit_without_validation_witness:
  "snd (create_lifecycle_policy (Glacier shipped_glacier_vars) (obliging_s3 []) []
          (str_of ''bucket-a'') ''accountid'') = Inr ()
   \<and> calls_of (fst (create_lifecycle_policy (Glacier shipped_glacier_vars) (obliging_s3 []) []
          (str_of ''bucket-a'') ''accountid'')) =
       [Put_bucket_lifecycle_configuration ''accountid'' (str_of ''bucket-a'')
          (glacier_lifecycle_config shipped_glacier_vars (str_of ''bucket-a'')) Returned]
   \<and> transitions_before_expiration (glacier_lifecycle_config shipped_glacier_vars (str_of ''bucket-a''))
   \<and> transitions_before_expiration (prompts_lifecycle_config (str_of ''bucket-a'') 360 ''GLACIER'')"
  using builders_submit_without_validation [of "Glacier shipped_glacier_vars" "obliging_s3 []" "[]" "str_of ''bucket-a''" "''accountid''"
      360 "''GLACIER''"]
  by (simp add: obliging_s3_def)

text \<open>
  C4. Whatever transition day count is chosen, \<^verbatim>\<open>create_lifecycle_policy\<close> of
  \<^verbatim>\<open>s3_policy_set_prompts.py\<close> puts one configuration, whose expiration and non-current
  expiration are both the transition day count plus 365 and whose non-current transition
  has the day count (and the storage class) of the current one. The function has no
  parameter for any of the three.
\<close>

theorem prompts_policy_couples_day_counts:
  "calls_of (fst (prompts_create_lifecycle_policy transition_days storage_class env h
                    bucket_name profile)) =
     [Put_bucket_lifecycle_configuration profile bucket_name
        (prompts_lifecycle_config bucket_name transition_days storage_class)
        (put_bucket_lifecycle_configuration env h profile bucket_name
           (prompts_lifecycle_config bucket_name transition_days storage_class))]
   \<and> map Expiration_Days (Rules (prompts_lifecycle_config bucket_name transition_days storage_class))
       = [transition_days + 365]
   \<and> map NoncurrentVersionExpiration_NoncurrentDays
        (Rules (prompts_lifecycle_config bucket_name transition_days storage_class))
       = [transition_days + 365]
   \<and> map NoncurrentVersionTransitions
        (Rules (prompts_lifecycle_config bucket_name transition_days storage_class))
       = [Some [\<lparr> NoncurrentDays = transition_days, Noncurrent_StorageClass = storage_class \<rparr>]]
   \<and> map Transitions (Rules (prompts_lifecycle_config bucket_name transition_days storage_class))
       = [Some [\<lparr> Days = transition_days, StorageClass = storage_class \<rparr>]]"
  by (simp add: prompts_create_lifecycle_policy_def put_lifecycle_config_def calls_of_def
      prompts_lifecycle_config_def Let_def split: api_result.split)

theorem prompts_policy_couples_day_counts_witness:
  "calls_of (fst (prompts_create_lifecycle_policy 90 ''GLACIER'' (obliging_s3 []) []
                    (str_of ''bucket-a'') ''accountid'')) =
     [Put_bucket_lifecycle_configuration ''accountid'' (str_of ''bucket-a'')
        (prompts_lifecycle_config (str_of ''bucket-a'') 90 ''GLACIER'') Returned]
   \<and> map Expiration_Days (Rules (prompts_lifecycle_config (str_of ''bucket-a'') 90 ''GLACIER'')) = [455]
   \<and> map NoncurrentVersionExpiration_NoncurrentDays
        (Rules (prompts_lifecycle_config (str_of ''bucket-a'') 90 ''GLACIER'')) = [455]"
  using prompts_policy_couples_day_counts [of 90 "''GLACIER''" "obliging_s3 []" "[]"
      "str_of ''bucket-a''" "''accountid''"]
  by (simp add: obliging_s3_def)

subsection \<open>S3: the prompts\<close>

lemma input_until_result:
  "fst (input_until allowed stdin) = Inl EOFError
   \<or> (\<exists>line. fst (input_until allowed stdin) = Inr line \<and> line \<in> set allowed)"
  by (induction stdin) auto

lemma py_int_choices:
  "py_int ''30'' = Inr 30" "py_int ''60'' = Inr 60" "py_int ''90'' = Inr 90"
  "py_int ''180'' = Inr 180" "py_int ''360'' = Inr 360"
  by (simp_all add: py_int_def is_digit_def)

lemma get_lifecycle_input_result:
  "fst (get_lifecycle_input stdin) = Inl EOFError
   \<or> (\<exists>n sc. fst (get_lifecycle_input stdin) = Inr (n, sc)
         \<and> n \<in> {30, 60, 90, 180, 360} \<and> sc \<in> {''GLACIER'', ''GLACIER_IR''})"
proof -
  obtain r1 rest where a: "input_until [''30'', ''60'', ''90'', ''180'', ''360''] stdin = (r1, rest)"
    by (cases "input_until [''30'', ''60'', ''90'', ''180'', ''360''] stdin")
  obtain r2 rest' where b: "input_until [''GLACIER'', ''GLACIER_IR''] rest = (r2, rest')"
    by (cases "input_until [''GLACIER'', ''GLACIER_IR''] rest")
  from input_until_result [of "[''30'', ''60'', ''90'', ''180'', ''360'']" stdin] a
  have r1: "r1 = Inl EOFError \<or> (\<exists>l. r1 = Inr l \<and> l \<in> set [''30'', ''60'', ''90'', ''180'', ''360''])"
    by simp
  from input_until_result [of "[''GLACIER'', ''GLACIER_IR'']" rest] b
  have r2: "r2 = Inl EOFError \<or> (\<exists>l. r2 = Inr l \<and> l \<in> set [''GLACIER'', ''GLACIER_IR''])"
    by simp
  from r1 r2 a b show ?thesis
    by (auto simp: get_lifecycle_input_def py_int_choices)
qed

lemma prompts_configs:
  "list_all (\<lambda>(b, config). config = prompts_lifecycle_config b n sc)
     (configs_of (fst (process_buckets (prompts_create_lifecycle_policy n sc) env profiles h path)))"
proof -
  let ?P = "\<lambda>x. list_all (\<lambda>(b, config). config = prompts_lifecycle_config b n sc)
                  (List.map_filter config_of (fst x))"
  have "?P (calls_of (fst (process_buckets (create_lifecycle_policy (Prompts n sc)) env profiles h path)),
            snd (process_buckets (create_lifecycle_policy (Prompts n sc)) env profiles h path))"
  proof (rule process_buckets_calls_rule [where P = ?P])
    fix b h' p
    show "?P (calls_of (fst (on_profile (create_lifecycle_policy (Prompts n sc)) env b h' p)),
              snd (on_profile (create_lifecycle_policy (Prompts n sc)) env b h' p))"
      using on_profile_calls [of "Prompts n sc" env b h' p]
      by (auto simp: List.map_filter_def)
  qed (simp_all add: map_filter_append)
  then show ?thesis by (simp add: configs_of_def)
qed

text \<open>
  C10. \<^verbatim>\<open>get_lifecycle_input\<close> ends in one of two ways: the input runs out
  (\<^verbatim>\<open>EOFError\<close>), or it returns a transition day count among 30, 60, 90, 180 and 360
  with a storage class that is \<^verbatim>\<open>GLACIER\<close> or \<^verbatim>\<open>GLACIER_IR\<close>. Every configuration
  the script puts is built from such a pair.
\<close>

theorem get_lifecycle_input_validated:
  "(fst (get_lifecycle_input stdin) = Inl EOFError
    \<or> (\<exists>n sc. fst (get_lifecycle_input stdin) = Inr (n, sc)
          \<and> n \<in> {30, 60, 90, 180, 360} \<and> sc \<in> {''GLACIER'', ''GLACIER_IR''}))
   \<and> list_all (\<lambda>(b, config). \<exists>n \<in> {30, 60, 90, 180, 360}. \<exists>sc \<in> {''GLACIER'', ''GLACIER_IR''}.
                  config = prompts_lifecycle_config b n sc)
       (configs_of (fst (prompts_main env profiles argv stdin)))"
proof -
  have in_main: "list_all (\<lambda>(b, config). \<exists>n \<in> {30, 60, 90, 180, 360}. \<exists>sc \<in> {''GLACIER'', ''GLACIER_IR''}.
                  config = prompts_lifecycle_config b n sc)
       (configs_of (fst (prompts_main env profiles argv stdin)))"
  proof (cases "length argv < 2")
    case True
    then show ?thesis by (simp add: prompts_main_def configs_of_def)
  next
    case False
    obtain res rest where g: "get_lifecycle_input stdin = (res, rest)"
      by (cases "get_lifecycle_input stdin")
    from get_lifecycle_input_result [of stdin] g
    consider "res = Inl EOFError"
      | n sc where "res = Inr (n, sc)" "n \<in> {30, 60, 90, 180, 360}" "sc \<in> {''GLACIER'', ''GLACIER_IR''}"
      by auto
    then show ?thesis
    proof cases
      case 1
      with False g show ?thesis by (simp add: prompts_main_def configs_of_def)
    next
      case 2
      let ?run = "process_buckets (prompts_create_lifecycle_policy n sc) env profiles
                    [Log INFO Starting] (argv ! 1)"
      have "list_all (\<lambda>(b, config). config = prompts_lifecycle_config b n sc) (configs_of (fst ?run))"
        by (rule prompts_configs)
      then have "list_all (\<lambda>(b, config). \<exists>n \<in> {30, 60, 90, 180, 360}. \<exists>sc \<in> {''GLACIER'', ''GLACIER_IR''}.
                  config = prompts_lifecycle_config b n sc) (configs_of (fst ?run))"
        using 2 by (auto simp: list_all_iff)
      then show ?thesis
        using False g 2(1)
        by (cases "snd ?run")
           (auto simp: prompts_main_def Let_def configs_of_def map_filter_append
              split: prod.splits)
    qed
  qed
  with get_lifecycle_input_result [of stdin] show ?thesis by blast
qed

theorem get_lifecycle_input_validated_witness:
  "fst (get_lifecycle_input [''15'', ''30'', ''glacier'', ''GLACIER'']) = Inr (30, ''GLACIER'')
   \<and> configs_of (fst (prompts_main (obliging_s3 [[str_of ''bucket-a'']]) prompts_AWS_PROFILES
        [''s3_policy_set_prompts.py'', ''buckets.csv''] [''15'', ''30'', ''glacier'', ''GLACIER'']))
      = [(str_of ''bucket-a'', prompts_lifecycle_config (str_of ''bucket-a'') 30 ''GLACIER'')]
   \<and> list_all (\<lambda>(b, config). \<exists>n \<in> {30, 60, 90, 180, 360}. \<exists>sc \<in> {''GLACIER'', ''GLACIER_IR''}.
                  config = prompts_lifecycle_config b n sc)
       (configs_of (fst (prompts_main (obliging_s3 [[str_of ''bucket-a'']]) prompts_AWS_PROFILES
        [''s3_policy_set_prompts.py'', ''buckets.csv''] [''15'', ''30'', ''glacier'', ''GLACIER''])))"
proof -
  have g: "get_lifecycle_input [''15'', ''30'', ''glacier'', ''GLACIER''] = (Inr (30, ''GLACIER''), [])"
    by (simp add: get_lifecycle_input_def py_int_choices)
  have m: "configs_of (fst (prompts_main (obliging_s3 [[str_of ''bucket-a'']]) prompts_AWS_PROFILES
        [''s3_policy_set_prompts.py'', ''buckets.csv''] [''15'', ''30'', ''glacier'', ''GLACIER'']))
      = [(str_of ''bucket-a'', prompts_lifecycle_config (str_of ''bucket-a'') 30 ''GLACIER'')]"
    by (simp add: prompts_main_def g process_buckets_def obliging_s3_def on_row_def on_profile_def
        prompts_create_lifecycle_policy_def put_lifecycle_config_def strip_bucket_a Let_def
        prompts_AWS_PROFILES_def configs_of_def)
  from g m get_lifecycle_input_validated [of "[''15'', ''30'', ''glacier'', ''GLACIER'']" "obliging_s3 [[str_of ''bucket-a'']]"
      prompts_AWS_PROFILES "[''s3_policy_set_prompts.py'', ''buckets.csv'']"]
  show ?thesis by simp
qed

subsection \<open>The exit status\<close>

lemma for_profiles_bound_returns:
  "snd (for_profiles og vars env True h ps) = Inr ()"
  by (induction ps arbitrary: h) (simp_all add: Let_def case_prod_beta)

lemma for_profiles_result:
  "snd (for_profiles og vars env False h ps) =
     (if ps \<noteq> [] \<and> \<not> setup_logging_returns env h (hd ps) then Inl UnboundLocalError else Inr ())"
  by (cases ps) (simp_all add: Let_def case_prod_beta for_profiles_bound_returns)

lemma cw_script_status:
  "snd (cw_script og vars env) =
     (if aws_profiles vars \<noteq> [] \<and> \<not> setup_logging_returns env [] (hd (aws_profiles vars))
      then 1 else 0)"
  using for_profiles_result [of og vars env "[]" "aws_profiles vars"]
  by (cases "for_profiles og vars env False [] (aws_profiles vars)")
     (auto simp: cw_script_def process_log_groups_def split: sum.splits if_splits)

lemma example_raise_run:
  "target_script shipped_cw_vars (obliging_cw listing_raises_in_us_east_1) =
   ([Call (Setup_logging ''accountid'' True),
     Log INFO (Started_processing ''accountid''),
     Log INFO (Processing_region ''us-east-1''),
     Call (Logs_client ''accountid'' ''us-east-1'' True),
     Call (Describe_log_groups_raises ''accountid'' ''us-east-1''),
     Log ERROR (Error_in_region ''us-east-1'' ''accountid''),
     Log ERROR Traceback,
     Log ERROR (Error_for_profile ''accountid''),
     Log ERROR Traceback,
     Call Print_complete], 0)"
  by (simp add: target_script_def cw_script_def process_log_groups_def shipped_cw_vars_def
      profile_turn_def on_region_def set_retention_for_log_groups_def on_page_def
      obliging_cw_def listing_raises_in_us_east_1_def Let_def)

text \<open>
  C6. The claim: the exit status is 0 if and only if no scope was aborted. In the
  CloudWatch scripts the handler of the loop over the profiles logs the exception and
  nothing keeps it: with the shipped variables and a listing that raises in
  \<^verbatim>\<open>us-east-1\<close>, the region and the profile are aborted, both are logged as errors, and
  the exit status is 0.
\<close>

theorem cloudwatch_abort_exits_zero:
  "snd (target_script shipped_cw_vars (obliging_cw listing_raises_in_us_east_1)) = 0
   \<and> Log ERROR (Error_in_region ''us-east-1'' ''accountid'')
       \<in> set (fst (target_script shipped_cw_vars (obliging_cw listing_raises_in_us_east_1)))
   \<and> Log ERROR (Error_for_profile ''accountid'')
       \<in> set (fst (target_script shipped_cw_vars (obliging_cw listing_raises_in_us_east_1)))"
  by (simp add: example_raise_run)

text \<open>
  C6, as the code has it. An S3 script exits with status 0 exactly when the path
  argument is given and \<^verbatim>\<open>process_buckets\<close> returns (for the prompts script: and the
  prompts were answered), and with status 1 otherwise. A CloudWatch script exits with
  status 0 whatever was aborted; the status is 1 only when \<^verbatim>\<open>setup_logging\<close> raises for
  the first profile.
\<close>

theorem exit_status:
  "snd (main create s3 profiles argv) =
     (if 2 \<le> length argv
         \<and> snd (process_buckets create s3 profiles [Log INFO Starting] (argv ! 1)) = Inr ()
      then 0 else 1)
   \<and> snd (prompts_main s3 profiles argv stdin) =
     (if length argv < 2 then 1
      else case fst (get_lifecycle_input stdin) of
             Inl e \<Rightarrow> 1
           | Inr (transition_days, storage_class) \<Rightarrow>
               snd (main (prompts_create_lifecycle_policy transition_days storage_class)
                      s3 profiles argv))
   \<and> snd (cw_script on_group vars env) =
     (if aws_profiles vars \<noteq> [] \<and> \<not> setup_logging_returns env [] (hd (aws_profiles vars))
      then 1 else 0)"
proof -
  have a: "snd (main create s3 profiles argv) =
     (if 2 \<le> length argv
         \<and> snd (process_buckets create s3 profiles [Log INFO Starting] (argv ! 1)) = Inr ()
      then 0 else 1)" for create
    by (cases "process_buckets create s3 profiles [Log INFO Starting] (argv ! 1)")
       (auto simp: main_def Let_def split: sum.splits)
  have b: "snd (prompts_main s3 profiles argv stdin) =
     (if length argv < 2 then 1
      else case fst (get_lifecycle_input stdin) of
             Inl e \<Rightarrow> 1
           | Inr (transition_days, storage_class) \<Rightarrow>
               snd (main (prompts_create_lifecycle_policy transition_days storage_class)
                      s3 profiles argv))"
    by (cases "get_lifecycle_input stdin")
       (auto simp: prompts_main_def main_def Let_def split: sum.splits prod.splits)
  from a [of create] b cw_script_status [of on_group vars env] show ?thesis by blast
qed

theorem exit_status_witness:
  "snd (main expire_create_lifecycle_policy
          (missing_bucket_s3 [[str_of ''bucket-a''], [str_of ''bucket-x''], [str_of '' bucket-b '']] (str_of ''bucket-x''))
          [''accountid''] [''s3_expire.py'', ''buckets.csv'']) = 1
   \<and> snd (prompts_main (obliging_s3 [[str_of ''bucket-a'']]) [''accountid'']
          [''s3_policy_set_prompts.py'', ''buckets.csv''] [''30'']) = 1
   \<and> snd (cw_script (target_log_group shipped_cw_vars (obliging_cw listing_raises_in_us_east_1))
          shipped_cw_vars (obliging_cw listing_raises_in_us_east_1)) = 0"
proof -
  have r: "snd (process_buckets expire_create_lifecycle_policy
          (missing_bucket_s3 [[str_of ''bucket-a''], [str_of ''bucket-x''], [str_of '' bucket-b '']] (str_of ''bucket-x''))
          [''accountid''] [Log INFO Starting] ''buckets.csv'') = Inl (BucketNotAccessible (str_of ''bucket-x''))"
    by (simp add: process_buckets_def missing_bucket_s3_def on_row_def on_profile_def
      expire_create_lifecycle_policy_def put_lifecycle_config_def strip_bucket_a strip_bucket_x
      Let_def)
  have g: "fst (get_lifecycle_input [''30'']) = Inl EOFError"
    by (simp add: get_lifecycle_input_def)
  have s: "setup_logging_returns (obliging_cw listing_raises_in_us_east_1) []
             (hd (aws_profiles shipped_cw_vars))"
    by (simp add: obliging_cw_def)
  from r g s
    exit_status [where create = expire_create_lifecycle_policy
      and ?s3.0 = "missing_bucket_s3 [[str_of ''bucket-a''], [str_of ''bucket-x''], [str_of '' bucket-b '']] (str_of ''bucket-x'')"
      and profiles = "[''accountid'']" and argv = "[''s3_expire.py'', ''buckets.csv'']"
      and on_group = "target_log_group shipped_cw_vars (obliging_cw listing_raises_in_us_east_1)"
      and vars = shipped_cw_vars and env = "obliging_cw listing_raises_in_us_east_1"]
    exit_status [where ?s3.0 = "obliging_s3 [[str_of ''bucket-a'']]" and profiles = "[''accountid'']"
      and argv = "[''s3_policy_set_prompts.py'', ''buckets.csv'']" and stdin = "[''30'']"]
  show ?thesis
    by simp
qed

subsection \<open>CloudWatch: a listing that raises\<close>
















text \<open>
  Every turn works through the regions, whatever happened in the turns before.
\<close>

lemma opened_append [simp]: "opened (xs @ ys) = opened xs @ opened ys"
  by (simp add: opened_def map_filter_append)

lemma opened_Nil [simp]: "opened [] = []"
  by (simp add: opened_def)
















lemma example_two_profiles_run:
  "calls_of (fst (cw_script (target_log_group two_profiles (obliging_cw listing_raises_for_dev))
      two_profiles (obliging_cw listing_raises_for_dev))) =
   [Setup_logging ''dev'' True,
    Logs_client ''dev'' ''us-east-1'' True,
    Describe_log_groups_raises ''dev'' ''us-east-1'',
    Setup_logging ''test'' True,
    Logs_client ''test'' ''us-east-1'' True,
    Describe_log_groups_page ''test'' ''us-east-1'' [g1],
    Put_retention_policy ''test'' ''us-east-1'' ''g1'' 30 True,
    Logs_client ''test'' ''us-west-1'' True,
    Describe_log_groups_page ''test'' ''us-west-1'' [g1],
    Put_retention_policy ''test'' ''us-west-1'' ''g1'' 30 True,
    Print_complete]"
  by (simp add: cw_script_def process_log_groups_def shipped_cw_vars_def two_profiles_def
      profile_turn_def on_region_def set_retention_for_log_groups_def on_page_def
      target_log_group_def obliging_cw_def listing_raises_for_dev_def g1_def Let_def)




subsection \<open>The order of processing\<close>

lemma remdups_adj_append_subseq:
  "subseq (remdups_adj (xs @ ys)) (remdups_adj xs @ remdups_adj ys)"
proof (induction xs rule: remdups_adj.induct)
  case 1
  show ?case by simp
next
  case (2 x)
  show ?case by (cases ys) auto
next
  case (3 x y xs)
  then show ?case by auto
qed

lemma subseq_remdups_adj_append:
  assumes "subseq (remdups_adj xs) ts" "subseq (remdups_adj ys) us"
  shows "subseq (remdups_adj (xs @ ys)) (ts @ us)"
proof -
  have "subseq (remdups_adj xs @ remdups_adj ys) (ts @ us)"
    using assms by (rule list_emb_append_mono)
  with remdups_adj_append_subseq [of xs ys] show ?thesis
    by (rule subseq_order.trans)
qed

lemma on_log_group_scopes:
  "set (scopes_of (fst (on_log_group mode vars env p r h g))) \<subseteq> {(p, r)}"
  using on_log_group_calls [of mode vars env p r h g]
  by (auto simp: scopes_of_def)

lemma on_page_scopes:
  "set (scopes_of (fst (on_page (on_log_group mode vars env p r) p r h pr))) \<subseteq> {(p, r)}"
proof (cases pr)
  case Page_raises
  then show ?thesis by (simp add: on_page_def scopes_of_Call)
next
  case (Page gs)
  have "set (scopes_of (fst (for_each (on_log_group mode vars env p r) h' gs))) \<subseteq> {(p, r)}" for h'
    by (rule for_each_rule [where P = "\<lambda>x. set (scopes_of (fst x)) \<subseteq> {(p, r)}"])
       (simp_all add: on_log_group_scopes)
  with Page show ?thesis
    by (simp add: on_page_def Let_def case_prod_beta scopes_of_Call)
qed

lemma set_retention_scopes:
  "set (scopes_of (fst (set_retention_for_log_groups (on_log_group mode vars env) env h r p)))
     \<subseteq> {(p, r)}"
  by (rule set_retention_events_rule [where P = "\<lambda>es. set (scopes_of es) \<subseteq> {(p, r)}"])
     (simp_all add: scopes_of_Call on_page_scopes)

lemma remdups_adj_within:
  "set xs \<subseteq> {s} \<Longrightarrow> subseq (remdups_adj xs) [s]"
proof (induction xs rule: remdups_adj.induct)
  case 1
  show ?case by simp
next
  case (2 x)
  then show ?case by simp
next
  case (3 x y xs)
  then show ?case by auto
qed

lemma region_loop_scopes:
  "subseq (remdups_adj (scopes_of (fst (for_each (on_region (on_log_group mode vars env) env p) h rs))))
     (map (Pair p) rs)"
proof (induction rs arbitrary: h)
  case Nil
  show ?case by simp
next
  case (Cons r rs)
  let ?og = "on_log_group mode vars env"
  obtain es res where b: "on_region ?og env p h r = (es, res)"
    by (cases "on_region ?og env p h r")
  have "set (scopes_of es) \<subseteq> {(p, r)}"
    using set_retention_scopes [of mode vars env "h @ [Log INFO (Processing_region r)]" r p] b
    by (auto simp: on_region_def Let_def case_prod_beta)
  then have one: "subseq (remdups_adj (scopes_of es)) [(p, r)]"
    by (rule remdups_adj_within)
  show ?case
  proof (cases res)
    case (Inl e)
    have "subseq (remdups_adj (scopes_of es)) ([(p, r)] @ map (Pair p) rs)"
      using list_emb_append_mono [OF one list_emb_Nil [of "(=)" "map (Pair p) rs"]] by simp
    with b Inl show ?thesis by simp
  next
    case (Inr u)
    obtain es' res' where f: "for_each (on_region ?og env p) (h @ es) rs = (es', res')"
      by (cases "for_each (on_region ?og env p) (h @ es) rs")
    have "subseq (remdups_adj (scopes_of es')) (map (Pair p) rs)"
      using Cons.IH [of "h @ es"] f by simp
    with one have "subseq (remdups_adj (scopes_of es @ scopes_of es')) ([(p, r)] @ map (Pair p) rs)"
      by (rule subseq_remdups_adj_append)
    with b Inr f show ?thesis by simp
  qed
qed

lemma profile_turn_scopes:
  "subseq (remdups_adj (scopes_of (profile_turn (on_log_group mode vars env) vars env h p)))
     (map (Pair p) (regions vars))"
proof -
  let ?og = "on_log_group mode vars env"
  let ?h = "h @ [Call (Setup_logging p True), Log INFO (Started_processing p)]"
  have "scopes_of (profile_turn ?og vars env h p) = []
        \<or> scopes_of (profile_turn ?og vars env h p) =
            scopes_of (fst (for_each (on_region ?og env p) ?h (regions vars)))"
    by (auto simp: profile_turn_def Let_def scopes_of_Call split: prod.splits sum.splits)
  with region_loop_scopes [of mode vars env p ?h "regions vars"] show ?thesis
    by auto
qed

lemma for_profiles_scopes:
  "subseq (remdups_adj (scopes_of (fst (for_profiles (on_log_group mode vars env) vars env bound h ps))))
     (List.product ps (regions vars))"
proof (induction ps arbitrary: h bound)
  case Nil
  show ?case by simp
next
  case (Cons p ps)
  let ?og = "on_log_group mode vars env"
  show ?case
  proof (cases "\<not> setup_logging_returns env h p \<and> \<not> bound")
    case True
    then show ?thesis by (simp add: scopes_of_Call)
  next
    case False
    have "subseq (remdups_adj (scopes_of (profile_turn ?og vars env h p) @
             scopes_of (fst (for_profiles ?og vars env True (h @ profile_turn ?og vars env h p) ps))))
           (map (Pair p) (regions vars) @ List.product ps (regions vars))"
      by (rule subseq_remdups_adj_append [OF profile_turn_scopes Cons.IH])
    with False show ?thesis
      by (auto simp: Let_def case_prod_beta)
  qed
qed

lemma cw_script_scopes:
  "subseq (remdups_adj (scopes_of (fst (cw_script (on_log_group mode vars env) vars env))))
     (List.product (aws_profiles vars) (regions vars))"
  using for_profiles_scopes [of mode vars env False "[]" "aws_profiles vars"]
  by (auto simp: cw_script_def process_log_groups_def scopes_of_Call split: prod.splits sum.splits)

lemma on_profile_heads:
  "(heads_of (fst (on_profile (create_lifecycle_policy script) env b h p)) = []
      \<and> snd (on_profile (create_lifecycle_policy script) env b h p) \<noteq> Inr ())
   \<or> heads_of (fst (on_profile (create_lifecycle_policy script) env b h p)) = [(b, p)]"
  using on_profile_calls [of script env b h p]
  by (auto simp: heads_of_def)

lemma profile_loop_heads:
  "prefix (heads_of (fst (for_each (on_profile (create_lifecycle_policy script) env b) h ps)))
          (map (Pair b) ps)
   \<and> (snd (for_each (on_profile (create_lifecycle_policy script) env b) h ps) = Inr ()
        \<longrightarrow> heads_of (fst (for_each (on_profile (create_lifecycle_policy script) env b) h ps))
            = map (Pair b) ps)"
proof (induction ps arbitrary: h)
  case Nil
  show ?case by simp
next
  case (Cons p ps)
  obtain es r where b: "on_profile (create_lifecycle_policy script) env b h p = (es, r)"
    by (cases "on_profile (create_lifecycle_policy script) env b h p")
  have hd: "(heads_of es = [] \<and> r \<noteq> Inr ()) \<or> heads_of es = [(b, p)]"
    using on_profile_heads [of script env b h p] b by simp
  show ?case
  proof (cases r)
    case (Inl e)
    with b hd show ?thesis by auto
  next
    case (Inr u)
    with hd have h1: "heads_of es = [(b, p)]" by auto
    obtain es' r' where f:
      "for_each (on_profile (create_lifecycle_policy script) env b) (h @ es) ps = (es', r')"
      by (cases "for_each (on_profile (create_lifecycle_policy script) env b) (h @ es) ps")
    from Cons.IH [of "h @ es"] f b Inr h1 show ?thesis by simp
  qed
qed

lemma targets_Cons:
  "targets (row # rows) =
     (if row = [] then []
      else (if strip (hd row) = [] then [] else [strip (hd row)]) @ targets rows)"
  by (simp add: targets_def)

lemma product_append: "List.product (xs @ ys) zs = List.product xs zs @ List.product ys zs"
  by (induction xs) simp_all

lemma row_loop_heads:
  "prefix (heads_of (fst (for_each (on_row (create_lifecycle_policy script) env profiles) h rows)))
          (List.product (targets rows) profiles)
   \<and> (snd (for_each (on_row (create_lifecycle_policy script) env profiles) h rows) = Inr ()
        \<longrightarrow> heads_of (fst (for_each (on_row (create_lifecycle_policy script) env profiles) h rows))
            = List.product (targets rows) profiles)"
proof (induction rows arbitrary: h)
  case Nil
  show ?case by (simp add: targets_def)
next
  case (Cons row rows)
  let ?create = "create_lifecycle_policy script"
  show ?case
  proof (cases row)
    case Nil
    then show ?thesis by (simp add: on_row_def targets_Cons)
  next
    case (Cons field rest)
    note row = this
    show ?thesis
    proof (cases "strip field = []")
      case True
      with row Cons.IH [of h] show ?thesis
        by (simp add: on_row_def targets_Cons case_prod_beta)
    next
      case False
      let ?b = "strip field"
      let ?h = "h @ [Log INFO (Processing_bucket ?b)]"
      obtain es r where b: "for_each (on_profile ?create env ?b) ?h profiles = (es, r)"
        by (cases "for_each (on_profile ?create env ?b) ?h profiles")
      have p1: "prefix (heads_of es) (map (Pair ?b) profiles)"
        and p2: "r = Inr () \<longrightarrow> heads_of es = map (Pair ?b) profiles"
        using profile_loop_heads [of script env ?b ?h profiles] b by simp_all
      have row_eq: "on_row ?create env profiles h row = (Log INFO (Processing_bucket ?b) # es, r)"
        using row False b by (simp add: on_row_def Let_def)
      have tg: "List.product (targets (row # rows)) profiles =
          map (Pair ?b) profiles @ List.product (targets rows) profiles"
        using row False by (simp add: targets_Cons)
      show ?thesis
      proof (cases r)
        case (Inl e)
        with row_eq tg p1 show ?thesis by (simp add: prefix_append)
      next
        case (Inr u)
        with p2 have full: "heads_of es = map (Pair ?b) profiles" by simp
        obtain es' r' where f:
          "for_each (on_row ?create env profiles)
             (h @ Log INFO (Processing_bucket ?b) # es) rows = (es', r')"
          by (cases "for_each (on_row ?create env profiles)
             (h @ Log INFO (Processing_bucket ?b) # es) rows")
        from Cons.IH [of "h @ Log INFO (Processing_bucket ?b) # es"] f
        have "prefix (heads_of es') (List.product (targets rows) profiles)"
          and "r' = Inr () \<longrightarrow> heads_of es' = List.product (targets rows) profiles"
          by simp_all
        with row_eq Inr f full tg show ?thesis by simp
      qed
    qed
  qed
qed

lemma process_buckets_heads:
  assumes "open_csv env path = Rows rows"
  shows "prefix (heads_of (fst (process_buckets (create_lifecycle_policy script) env profiles h path)))
           (List.product (targets rows) profiles)
    \<and> (snd (process_buckets (create_lifecycle_policy script) env profiles h path) = Inr ()
         \<longrightarrow> heads_of (fst (process_buckets (create_lifecycle_policy script) env profiles h path))
             = List.product (targets rows) profiles)"
proof -
  obtain es r where f:
    "for_each (on_row (create_lifecycle_policy script) env profiles) h rows = (es, r)"
    by (cases "for_each (on_row (create_lifecycle_policy script) env profiles) h rows")
  with row_loop_heads [of script env profiles h rows] assms show ?thesis
    by (cases r) (simp_all add: process_buckets_def)
qed

text \<open>
  C8. The claim: the order is scope-major, every target of one identity scope before any
  target of the next. The S3 scripts loop over the rows outside and over the profiles
  inside: with two profiles and two buckets, \<^verbatim>\<open>bucket-b\<close> is checked under the first
  profile after \<^verbatim>\<open>bucket-a\<close> was checked under the second.
\<close>

theorem s3_order_is_bucket_major:
  "heads_of (fst (process_buckets expire_create_lifecycle_policy
      (obliging_s3 [[str_of ''bucket-a''], [str_of '' bucket-b '']]) [''dev'', ''test''] [] ''buckets.csv'')) =
     [(str_of ''bucket-a'', ''dev''), (str_of ''bucket-a'', ''test''),
      (str_of ''bucket-b'', ''dev''), (str_of ''bucket-b'', ''test'')]"
  by (simp add: process_buckets_def obliging_s3_def on_row_def on_profile_def
      expire_create_lifecycle_policy_def put_lifecycle_config_def strip_bucket_a strip_bucket_b
      Let_def heads_of_def)

text \<open>
  C8, as the code has it. CloudWatch: the (profile, region) scopes of the calls, adjacent
  repeats merged, are a subsequence of the product of the profiles and the regions,
  profiles first: the calls of one scope are made together, scope after scope. S3: the
  existence checks follow the rows and, for each row, the profiles: they are a prefix of
  the product of the targets and the profiles, and the whole of it when the run returns.
\<close>

theorem processing_order:
  "subseq (remdups_adj (scopes_of (fst (cw_script (on_log_group mode vars env) vars env))))
     (List.product (aws_profiles vars) (regions vars))
   \<and> (open_csv s3 path = Rows rows \<longrightarrow>
        prefix (heads_of (fst (process_buckets (create_lifecycle_policy script) s3 profiles h path)))
          (List.product (targets rows) profiles)
        \<and> (snd (process_buckets (create_lifecycle_policy script) s3 profiles h path) = Inr ()
             \<longrightarrow> heads_of (fst (process_buckets (create_lifecycle_policy script) s3 profiles h path))
                 = List.product (targets rows) profiles))"
  using cw_script_scopes [of mode vars env]
    process_buckets_heads [of s3 path rows script profiles h] by blast

theorem processing_order_witness:
  "scopes_of (fst (cw_script (on_log_group Conditional two_profiles (obliging_cw listing_raises_for_dev))
      two_profiles (obliging_cw listing_raises_for_dev))) =
     [(''dev'', ''us-east-1''), (''dev'', ''us-east-1''),
      (''test'', ''us-east-1''), (''test'', ''us-east-1''), (''test'', ''us-east-1''),
      (''test'', ''us-west-1''), (''test'', ''us-west-1''), (''test'', ''us-west-1'')]
   \<and> subseq (remdups_adj (scopes_of (fst (cw_script
        (on_log_group Conditional two_profiles (obliging_cw listing_raises_for_dev))
        two_profiles (obliging_cw listing_raises_for_dev)))))
      [(''dev'', ''us-east-1''), (''dev'', ''us-west-1''),
       (''test'', ''us-east-1''), (''test'', ''us-west-1'')]
   \<and> open_csv (obliging_s3 [[str_of ''bucket-a''], [str_of '' bucket-b '']]) ''buckets.csv''
       = Rows [[str_of ''bucket-a''], [str_of '' bucket-b '']]
   \<and> snd (process_buckets (create_lifecycle_policy Expire)
        (obliging_s3 [[str_of ''bucket-a''], [str_of '' bucket-b '']]) [''dev'', ''test''] [] ''buckets.csv'') = Inr ()
   \<and> heads_of (fst (process_buckets (create_lifecycle_policy Expire)
        (obliging_s3 [[str_of ''bucket-a''], [str_of '' bucket-b '']]) [''dev'', ''test''] [] ''buckets.csv''))
      = List.product (targets [[str_of ''bucket-a''], [str_of '' bucket-b '']]) [''dev'', ''test'']
   \<and> List.product (targets [[str_of ''bucket-a''], [str_of '' bucket-b '']]) [''dev'', ''test''] =
       [(str_of ''bucket-a'', ''dev''), (str_of ''bucket-a'', ''test''),
        (str_of ''bucket-b'', ''dev''), (str_of ''bucket-b'', ''test'')]"
proof -
  have o: "open_csv (obliging_s3 [[str_of ''bucket-a''], [str_of '' bucket-b '']]) ''buckets.csv''
       = Rows [[str_of ''bucket-a''], [str_of '' bucket-b '']]"
    by (simp add: obliging_s3_def)
  have r: "snd (process_buckets expire_create_lifecycle_policy
        (obliging_s3 [[str_of ''bucket-a''], [str_of '' bucket-b '']]) [''dev'', ''test''] [] ''buckets.csv'') = Inr ()"
    by (simp add: process_buckets_def obliging_s3_def on_row_def on_profile_def
      expire_create_lifecycle_policy_def put_lifecycle_config_def strip_bucket_a strip_bucket_b
      Let_def)
  have t: "targets [[str_of ''bucket-a''], [str_of '' bucket-b '']] = [str_of ''bucket-a'', str_of ''bucket-b'']"
    by (simp add: targets_def strip_bucket_a strip_bucket_b)
  have p: "aws_profiles two_profiles = [''dev'', ''test'']"
      "regions two_profiles = [''us-east-1'', ''us-west-1'']"
    by (simp_all add: two_profiles_def)
  have sc: "scopes_of (fst (cw_script (target_log_group two_profiles (obliging_cw listing_raises_for_dev))
      two_profiles (obliging_cw listing_raises_for_dev))) =
     [(''dev'', ''us-east-1''), (''dev'', ''us-east-1''),
      (''test'', ''us-east-1''), (''test'', ''us-east-1''), (''test'', ''us-east-1''),
      (''test'', ''us-west-1''), (''test'', ''us-west-1''), (''test'', ''us-west-1'')]"
    by (simp add: scopes_of_def example_two_profiles_run)
  from o r t p sc
    processing_order [of Conditional two_profiles "obliging_cw listing_raises_for_dev"
      "obliging_s3 [[str_of ''bucket-a''], [str_of '' bucket-b '']]" "''buckets.csv''"
      "[[str_of ''bucket-a''], [str_of '' bucket-b '']]" Expire "[''dev'', ''test'']" "[]"]
  show ?thesis by simp
qed

end
